theory Spec2Isabelle
  imports Complex_Main "HOL-Library.Multiset"
begin

section \<open>Events of the Flex protocols\<close>

text \<open>
  The Flex scripts (the two Zymo magnetic-bead extractions, the Select-a-Size cleanup and
  the library preparation) are straight-line programs over the vendor API. A run is
  modelled by the list of the API calls it issues that the properties below speak about:
  tip pick-ups, returns and drops, user pauses, timed delays, thermocycler holds, homing
  and the rail lights. Liquid handling (aspirate, dispense, mix, transfer), labware moves
  and comments issue no such event and are left out of the list.

  \<^item> \<open>Pick_up_tip i\<close>: \<open>pick_up_tip\<close> of position \<open>i\<close> of the script's tip list
    (a well of \<open>tips\<close> in the 48-sample script, a column of \<open>total_tips\<close> in the
    24-sample script).
  \<^item> \<open>Delay l m\<close>: the \<open>delay\<close> call written at line \<open>l\<close> of the script's source,
    executed for \<open>m\<close> minutes (\<open>seconds=s\<close> is \<open>s / 60\<close> minutes).
  \<^item> \<open>Hold l m\<close>: one hold step of the \<open>execute_profile\<close> call at line \<open>l\<close>,
    \<open>m\<close> minutes long.
\<close>

datatype event =
    Pick_up_tip int
  | Return_tip
  | Drop_tip
  | Pause string
  | Delay nat real
  | Hold nat real
  | Home
  | Set_rail_lights bool

text \<open>
  A procedure of a script reads and writes the script's mutable state and issues events.
  \<open>seq\<close> runs procedures one after the other, \<open>for_each\<close> is a \<open>for\<close> loop.
\<close>

type_synonym 's proc = "'s \<Rightarrow> event list \<times> 's"

definition emit :: "event list \<Rightarrow> 's proc" where
  "emit es s = (es, s)"

primrec seq :: "'s proc list \<Rightarrow> 's proc" where
  "seq [] s = ([], s)"
| "seq (p # ps) s = (let (e1, s1) = p s; (e2, s2) = seq ps s1 in (e1 @ e2, s2))"

primrec for_each :: "'a list \<Rightarrow> ('a \<Rightarrow> 's proc) \<Rightarrow> 's proc" where
  "for_each [] body s = ([], s)"
| "for_each (x # xs) body s =
     (let (e1, s1) = body x s; (e2, s2) = for_each xs body s1 in (e1 @ e2, s2))"

text \<open>
  \<open>numpy.arange(start, stop, step)\<close>: the values \<open>start + i * step\<close> for
  \<open>0 \<le> i < \<lceil>(stop - start) / step\<rceil>\<close>; empty when that bound is not positive.
  Called with two arguments the step is 1.
\<close>

definition np_arange :: "real \<Rightarrow> real \<Rightarrow> real \<Rightarrow> real list" where
  "np_arange start stop step =
     map (\<lambda>i. start + real i * step) [0 ..< nat \<lceil>(stop - start) / step\<rceil>]"

text \<open>\<open>math.ceil(a / b)\<close> for a sample count and a positive integer divisor.\<close>

definition ceil_div :: "nat \<Rightarrow> nat \<Rightarrow> nat" where
  "ceil_div a b = nat \<lceil>real a / real b\<rceil>"

section \<open>Zymo\_Magbead\_DNA\_Kit\_48samples\<close>

text \<open>
  The module-level globals of the script. \<open>waste_vol\<close> is named by a \<open>global\<close>
  statement in \<open>_waste_track\<close> but never assigned at module level: \<open>None\<close> is the
  unbound name.
\<close>

record globals48 =
  whichwash :: int
  sample_max :: int
  tip1k :: int
  tip200 :: int
  drop_count :: int
  waste_vol :: "real option"

definition initial_globals48 :: globals48 where
  "initial_globals48 =
     \<lparr> whichwash = 1, sample_max = 48, tip1k = 0, tip200 = 0, drop_count = 0,
       waste_vol = None \<rparr>"

datatype py_error = NameError | IndexError | ValueError

definition empty_waste_bin48 :: string where
  "empty_waste_bin48 = ''Please empty the waste bin of all the tips before continuing.''"

definition empty_liquid_waste :: string where
  "empty_liquid_waste = ''Please empty liquid waste before resuming.''"

text \<open>
  \<open>tiptrack(pip, tipbox)\<close>. Every call in the script passes \<open>tips\<close> as \<open>tipbox\<close>;
  the flag is the test \<open>tipbox == tips\<close>.
\<close>

definition tiptrack :: "bool \<Rightarrow> globals48 proc" where
  "tiptrack tipbox_is_tips g =
     (let (e1, g1) =
            (if tipbox_is_tips
             then ([Pick_up_tip (tip1k g)], g\<lparr>tip1k := tip1k g + 8\<rparr>)
             else ([], g));
          g2 = g1\<lparr>drop_count := drop_count g1 + 8\<rparr>
      in if drop_count g2 \<ge> 150
         then (e1 @ [Pause empty_waste_bin48], g2\<lparr>drop_count := 0\<rparr>)
         else (e1, g2))"

definition blink48 :: "event list" where
  "blink48 =
     concat (replicate 3
       [Set_rail_lights True, Delay 204 (1666667 / 100000000),
        Set_rail_lights False, Delay 206 (1666667 / 100000000)])"

text \<open>
  \<open>_waste_track(vol)\<close>, the function nested in \<open>remove_supernatant\<close>. Reading the
  unbound global raises \<open>NameError\<close>.
\<close>

definition waste_track48 :: "real \<Rightarrow> globals48 \<Rightarrow> py_error + event list \<times> globals48" where
  "waste_track48 vol g =
     (case waste_vol g of
        None \<Rightarrow> Inl NameError
      | Some w \<Rightarrow>
          (let w1 = w + vol * 8 in
           if w1 \<ge> 185000
           then Inr ([Home] @ blink48 @ [Pause empty_liquid_waste], g\<lparr>waste_vol := Some 0\<rparr>)
           else Inr ([], g\<lparr>waste_vol := Some w1\<rparr>)))"

text \<open>
  The sample columns \<open>samples_m = sample_plate.rows()[0][:num_cols]\<close>, by index.
  The script serves up to \<open>sample_max = 48\<close> samples (six columns): its reagent wells
  are indexed by the column number and run out beyond that.
\<close>

definition num_cols48 :: "nat \<Rightarrow> nat" where
  "num_cols48 num_samples = ceil_div num_samples 8"

definition samples_m48 :: "nat \<Rightarrow> nat list" where
  "samples_m48 num_samples = take (num_cols48 num_samples) [0 ..< 12]"

text \<open>
  \<open>remove_supernatant(vol)\<close>: one fresh tip per column, dropped after the transfers.
  The nested \<open>_waste_track\<close> is defined here and not called.
\<close>

definition remove_supernatant48 :: "nat \<Rightarrow> globals48 proc" where
  "remove_supernatant48 num_samples =
     for_each (samples_m48 num_samples) (\<lambda>m. seq [tiptrack True, emit [Drop_tip]])"

text \<open>The settling times chosen from \<open>dry_run\<close> at the start of \<open>run\<close>.\<close>

definition settling_time :: "bool \<Rightarrow> real" where
  "settling_time dry_run = (if \<not> dry_run then 2 else 0.25)"

definition settling_time_binding :: "bool \<Rightarrow> real" where
  "settling_time_binding dry_run = (if \<not> dry_run then 5 else 0.25)"

definition settling_time_wash :: "bool \<Rightarrow> real" where
  "settling_time_wash dry_run = (if \<not> dry_run then 1 else 0.25)"

text \<open>
  A shake on the heater-shaker for the given minutes (the \<open>delay\<close> at line \<open>l\<close>), or,
  without the module, a pause for the user to shake by hand unless this is a dry run.
\<close>

definition shake48 :: "bool \<Rightarrow> bool \<Rightarrow> nat \<Rightarrow> real \<Rightarrow> string \<Rightarrow> event list" where
  "shake48 dry_run heater_shaker l minutes msg =
     (if heater_shaker then [Delay l (if \<not> dry_run then minutes else 0.25)]
      else if \<not> dry_run then [Pause msg] else [])"

text \<open>A countdown loop \<open>for t in np.arange(start, 0, -0.5): ctx.delay(minutes=0.5)\<close>.\<close>

definition countdown48 :: "nat \<Rightarrow> real \<Rightarrow> event list" where
  "countdown48 l start = map (\<lambda>t. Delay l 0.5) (np_arange start 0 (- 0.5))"

definition bind48 :: "bool \<Rightarrow> bool \<Rightarrow> nat \<Rightarrow> globals48 proc" where
  "bind48 dry_run heater_shaker num_samples =
     seq [
       for_each (samples_m48 num_samples) (\<lambda>well. seq [tiptrack True, emit [Drop_tip]]),
       emit (shake48 dry_run heater_shaker 338 10 ''Place on shaker at 1800 rpm for 10 minutes''),
       emit (countdown48 357 (settling_time_binding dry_run + 1)),
       remove_supernatant48 num_samples,
       tiptrack True,
       for_each [0 ..< num_cols48 num_samples]
         (\<lambda>i. seq [if i \<noteq> 0 then tiptrack True else emit [], emit [Drop_tip]]),
       emit (shake48 dry_run heater_shaker 387 1 ''Place on shaker at 1800 rpm for 1 minute.''),
       emit (countdown48 406 (settling_time_wash dry_run + 1)),
       remove_supernatant48 num_samples
     ]"

text \<open>
  \<open>wash(vol, source)\<close>; \<open>which\<close> is 1, 2 or 3 for \<open>source\<close> being \<open>wash1\<close>,
  \<open>wash2\<close> or \<open>wash3\<close>.
\<close>

definition wash48 :: "bool \<Rightarrow> bool \<Rightarrow> nat \<Rightarrow> int \<Rightarrow> globals48 proc" where
  "wash48 dry_run heater_shaker num_samples which =
     seq [
       (\<lambda>g. ([], g\<lparr>whichwash := which\<rparr>)),
       tiptrack True,
       emit [Drop_tip],
       emit (shake48 dry_run heater_shaker 447 2 ''Shaker for 2 minutes at 1800 rpm''),
       emit (countdown48 466 (settling_time_wash dry_run)),
       remove_supernatant48 num_samples
     ]"

definition elute48 :: "bool \<Rightarrow> bool \<Rightarrow> nat \<Rightarrow> globals48 proc" where
  "elute48 dry_run heater_shaker num_samples =
     seq [
       tiptrack True,
       emit [Drop_tip],
       emit (shake48 dry_run heater_shaker 480 5 ''Place on a shaker at 1800 rpm for 5 minutes.''),
       emit (countdown48 499 (settling_time dry_run)),
       for_each (samples_m48 num_samples) (\<lambda>m. seq [tiptrack True, emit [Drop_tip]])
     ]"

text \<open>
  The body of \<open>run\<close> after the labware is loaded. \<open>get_values\<close> supplies
  \<open>dry_run = False\<close>, \<open>heater_shaker = True\<close> and \<open>num_samples = 48\<close>; they are kept
  as arguments.
\<close>

definition zymo48 :: "bool \<Rightarrow> bool \<Rightarrow> nat \<Rightarrow> globals48 proc" where
  "zymo48 dry_run heater_shaker num_samples =
     seq [
       bind48 dry_run heater_shaker num_samples,
       wash48 dry_run heater_shaker num_samples 1,
       (if \<not> dry_run
        then seq [wash48 dry_run heater_shaker num_samples 2,
                  wash48 dry_run heater_shaker num_samples 3]
        else emit []),
       emit (countdown48 524 (if \<not> dry_run then 9 else 0.5)),
       elute48 dry_run heater_shaker num_samples
     ]"

section \<open>Zymo\_Magbead\_DNA\_Kit\_24samples\_20250828\<close>

text \<open>
  The \<open>Timer\<close> dataclass (minutes). A dry run overwrites every field with 0.25.
\<close>

record timers24 =
  MAGNET_SETTLING :: real
  MAGNET_SETTLING_EXT :: real
  WASH :: real
  SHAKER_WASH :: real
  SHAKER_ELUTE :: real
  BLINK :: real
  BIND :: real
  BEAD_DRY :: real

definition Timer :: timers24 where
  "Timer =
     \<lparr> MAGNET_SETTLING = 2, MAGNET_SETTLING_EXT = 3, WASH = 1, SHAKER_WASH = 1,
       SHAKER_ELUTE = 5, BLINK = 1 / 60, BIND = 3, BEAD_DRY = 10 \<rparr>"

definition timers_of :: "bool \<Rightarrow> timers24" where
  "timers_of dry_run =
     (if dry_run
      then \<lparr> MAGNET_SETTLING = 0.25, MAGNET_SETTLING_EXT = 0.25, WASH = 0.25,
             SHAKER_WASH = 0.25, SHAKER_ELUTE = 0.25, BLINK = 0.25, BIND = 0.25,
             BEAD_DRY = 0.25 \<rparr>
      else Timer)"

text \<open>The mutable fields of \<open>RunTimeParameters\<close>.\<close>

record runtime24 =
  WASH_COUNT :: int
  TIP1000 :: int
  TIP200 :: int
  DROP_COUNT :: int
  WASTE_VOL :: real

text \<open>The \<open>ReagentVolume\<close> constants the run passes on (microlitres).\<close>

definition MAGBINDING_BUFFER_WASH :: real where "MAGBINDING_BUFFER_WASH = 500"
definition MAGWASH_1 :: real where "MAGWASH_1 = 500"
definition MAGWASH_2_1 :: real where "MAGWASH_2_1 = 900"
definition MAGWASH_2_2 :: real where "MAGWASH_2_2 = 900"
definition TOTAL_BINDING_VOLUME :: real where "TOTAL_BINDING_VOLUME = 600 + 20 + 200"

text \<open>
  Tip columns. \<open>total_tips\<close> lists the 36 columns of the three racks; a column is
  named by its position in that list. \<open>slice a b xs\<close> is Python's \<open>xs[a:b]\<close> for
  \<open>0 \<le> a\<close>.
\<close>

definition slice :: "nat \<Rightarrow> nat \<Rightarrow> 'a list \<Rightarrow> 'a list" where
  "slice a b xs = take (b - a) (drop a xs)"

definition total_tips :: "nat list" where
  "total_tips = [0 ..< 36]"

definition num_sample_columns :: "nat \<Rightarrow> nat" where
  "num_sample_columns sample_count = ceil_div sample_count 8"

definition reagent_tips :: nat where
  "reagent_tips = hd total_tips"

definition supernatant_tips :: "nat \<Rightarrow> nat list" where
  "supernatant_tips n = slice 1 (n + 1) total_tips"

definition elution_tips :: "nat \<Rightarrow> nat list" where
  "elution_tips n = slice (1 + n) (1 + 2 * n) total_tips"

definition remaining_tips :: "nat \<Rightarrow> nat list" where
  "remaining_tips n = drop (1 + 2 * n) total_tips"

definition sample_index_columns :: "nat \<Rightarrow> nat list" where
  "sample_index_columns n = take n [0 ..< 12]"

definition initial_runtime24 :: "nat \<Rightarrow> runtime24" where
  "initial_runtime24 n =
     \<lparr> WASH_COUNT = 1,
       TIP1000 = int (length total_tips) - int (length (remaining_tips n)),
       TIP200 = 0, DROP_COUNT = 0, WASTE_VOL = 0 \<rparr>"

definition empty_waste_bin24 :: string where
  "empty_waste_bin24 = ''Please empty the waste bin before continuing.''"

definition blink24 :: "timers24 \<Rightarrow> event list" where
  "blink24 timers =
     concat (replicate 3
       [Set_rail_lights True, Delay 409 (BLINK timers),
        Set_rail_lights False, Delay 411 (BLINK timers)])"

definition track_waste :: "timers24 \<Rightarrow> real \<Rightarrow> runtime24 proc" where
  "track_waste timers volume r =
     (let r1 = r\<lparr>WASTE_VOL := WASTE_VOL r + volume * 8\<rparr> in
      if WASTE_VOL r1 \<ge> 185000
      then ([Home] @ blink24 timers @ [Pause empty_liquid_waste], r1\<lparr>WASTE_VOL := 0\<rparr>)
      else ([], r1))"

text \<open>\<open>get_tips()\<close> takes the next column that is not reserved.\<close>

definition get_tips :: "runtime24 proc" where
  "get_tips r = ([Pick_up_tip (TIP1000 r)], r\<lparr>TIP1000 := TIP1000 r + 1\<rparr>)"

definition return_tips :: "runtime24 proc" where
  "return_tips = emit [Return_tip]"

definition drop_tips :: "runtime24 proc" where
  "drop_tips r =
     (let r1 = r\<lparr>DROP_COUNT := DROP_COUNT r + 1\<rparr> in
      if DROP_COUNT r1 \<ge> 18
      then ([Drop_tip, Pause empty_waste_bin24], r1\<lparr>DROP_COUNT := 0\<rparr>)
      else ([Drop_tip], r1))"

text \<open>
  The countdown loops of this script are written
  \<open>for timer in np.arange(duration, -0.5): ctx.delay(minutes=0.5)\<close>: two arguments,
  so \<open>-0.5\<close> is the stop value and the step is 1.
\<close>

definition countdown24 :: "nat \<Rightarrow> real \<Rightarrow> event list" where
  "countdown24 l duration = map (\<lambda>t. Delay l 0.5) (np_arange duration (- 0.5) 1)"

definition move_to_magnet :: "real \<Rightarrow> runtime24 proc" where
  "move_to_magnet duration = emit (if duration > 0 then countdown24 375 duration else [])"

definition shake_mix :: "real \<Rightarrow> runtime24 proc" where
  "shake_mix duration = emit (countdown24 400 duration)"

definition remove_supernatant24 :: "timers24 \<Rightarrow> nat \<Rightarrow> real \<Rightarrow> bool \<Rightarrow> runtime24 proc" where
  "remove_supernatant24 timers n volume dispose_tips =
     seq [
       track_waste timers volume,
       for_each (zip (supernatant_tips n) (sample_index_columns n))
         (\<lambda>(super_tips, sample_col).
            seq [emit [Pick_up_tip (int super_tips)],
                 if dispose_tips then drop_tips else return_tips])
     ]"

definition wash24 :: "timers24 \<Rightarrow> nat \<Rightarrow> real \<Rightarrow> bool \<Rightarrow> runtime24 proc" where
  "wash24 timers n volume dispose_tips =
     seq [
       (\<lambda>r. ([], r\<lparr>WASH_COUNT := WASH_COUNT r + 1\<rparr>)),
       emit [Pick_up_tip (int reagent_tips)],
       return_tips,
       shake_mix (SHAKER_WASH timers),
       move_to_magnet (MAGNET_SETTLING timers),
       remove_supernatant24 timers n volume dispose_tips
     ]"

definition bind24 :: "timers24 \<Rightarrow> nat \<Rightarrow> runtime24 proc" where
  "bind24 timers n =
     seq [
       emit [Pick_up_tip (int reagent_tips)],
       return_tips,
       for_each (zip (supernatant_tips n) (sample_index_columns n))
         (\<lambda>(super_tips, sample_col). seq [emit [Pick_up_tip (int super_tips)], return_tips]),
       emit (countdown24 544 (BIND timers)),
       move_to_magnet (MAGNET_SETTLING_EXT timers),
       remove_supernatant24 timers n TOTAL_BINDING_VOLUME False
     ]"

definition elute24 :: "timers24 \<Rightarrow> nat \<Rightarrow> runtime24 proc" where
  "elute24 timers n =
     seq [
       emit (countdown24 557 (BEAD_DRY timers)),
       for_each (zip (elution_tips n) (sample_index_columns n))
         (\<lambda>(elute_tips, sample_col). seq [emit [Pick_up_tip (int elute_tips)], return_tips]),
       shake_mix (SHAKER_ELUTE timers),
       move_to_magnet (MAGNET_SETTLING timers),
       for_each (zip (elution_tips n) (zip (sample_index_columns n) (sample_index_columns n)))
         (\<lambda>(elute_tips, sample_col, elute_col).
            seq [emit [Pick_up_tip (int elute_tips)], drop_tips])
     ]"

text \<open>
  The calls at the end of \<open>run\<close>, for the timers in force and \<open>n\<close> sample
  columns: the events issued and the final \<open>RunTimeParameters\<close>.
\<close>

definition protocol24 :: "timers24 \<Rightarrow> nat \<Rightarrow> event list \<times> runtime24" where
  "protocol24 timers n =
     seq [
       bind24 timers n,
       wash24 timers n MAGBINDING_BUFFER_WASH False,
       wash24 timers n MAGWASH_1 False,
       wash24 timers n MAGWASH_2_1 False,
       wash24 timers n MAGWASH_2_2 True,
       elute24 timers n
     ] (initial_runtime24 n)"

text \<open>The run for the UI parameters \<open>sample_count\<close> (1 to 48) and \<open>dry_run\<close>.\<close>

definition zymo24 :: "nat \<Rightarrow> bool \<Rightarrow> event list \<times> runtime24" where
  "zymo24 sample_count dry_run =
     protocol24 (timers_of dry_run) (num_sample_columns sample_count)"

text \<open>
  Reading a list of events: the tip positions picked up, in order, and what happens to
  the tips of position \<open>c\<close> after each of their pick-ups (the event that follows the
  pick-up: the script returns or drops the tip before it touches another one).
\<close>

fun picked_up :: "event list \<Rightarrow> int list" where
  "picked_up [] = []"
| "picked_up (Pick_up_tip i # es) = i # picked_up es"
| "picked_up (e # es) = picked_up es"

fun fates :: "int \<Rightarrow> event list \<Rightarrow> event list" where
  "fates c [] = []"
| "fates c [e] = []"
| "fates c (Pick_up_tip i # e # es) =
     (if i = c then e # fates c (e # es) else fates c (e # es))"
| "fates c (e' # e # es) = fates c (e # es)"

section \<open>SelectASizeCleaning and Zymo\_LibraryPrep\_TG\_V2\<close>

text \<open>
  The timed delays and pauses of \<open>SelectASizeCleaning.run\<close>, in program order, for the
  parameters \<open>DryRun\<close> and \<open>magbead_incubation_time\<close> (declared with minimum 1.0 and
  maximum 30.0).
\<close>

definition select_a_size :: "bool \<Rightarrow> real \<Rightarrow> event list" where
  "select_a_size DryRun magbead_incubation_time =
     [Delay 159 (if \<not> DryRun then 5 else 0.5),
      Delay 167 (if \<not> DryRun then magbead_incubation_time else 0.5)]
     @ (if \<not> DryRun then [Pause ''Ensure all buffer removed.''] else [])
     @ [Delay 224 (if \<not> DryRun then 5 else 0.5),
        Delay 229 (if \<not> DryRun then magbead_incubation_time else 0.5)]"

text \<open>
  The timed delays, thermocycler holds and pauses of \<open>Zymo_LibraryPrep_TG_V2.run\<close> for
  the parameters \<open>DryRun\<close> and \<open>using_thermocycler\<close>. The two profiles hold 600 s
  once, and 30 s, 30 s and 180 s in each of 42 repetitions.
\<close>

definition external_pcr_msg :: string where
  "external_pcr_msg = ''Please remove the sample plate and place it in an external thermocycler or incubator for PCR amplification. After PCR is complete, place the plate back in slot C2 and resume the protocol.''"

definition library_prep :: "bool \<Rightarrow> bool \<Rightarrow> event list" where
  "library_prep DryRun using_thermocycler =
     [Delay 135 (1 / 60), Delay 142 (1 / 60)]
     @ (if using_thermocycler
        then (if \<not> DryRun
              then [Hold 160 (600 / 60)]
                   @ concat (replicate 42 [Hold 166 (30 / 60), Hold 166 (30 / 60), Hold 166 (180 / 60)])
              else [])
        else [Pause external_pcr_msg])
     @ replicate 12 (Delay 187 (1 / 60))"

text \<open>
  The durations, in execution order, of the timed events written at source line \<open>l\<close>;
  and \<open>dominated xs ys\<close>: the list \<open>xs\<close> is no longer than \<open>ys\<close> and each of its
  entries is at most the entry of \<open>ys\<close> at the same position.
\<close>

fun timed_at :: "nat \<Rightarrow> event list \<Rightarrow> real list" where
  "timed_at l [] = []"
| "timed_at l (Delay k m # es) = (if k = l then m # timed_at l es else timed_at l es)"
| "timed_at l (Hold k m # es) = (if k = l then m # timed_at l es else timed_at l es)"
| "timed_at l (e # es) = timed_at l es"

fun dominated :: "real list \<Rightarrow> real list \<Rightarrow> bool" where
  "dominated [] ys = True"
| "dominated (x # xs) [] = False"
| "dominated (x # xs) (y # ys) = (x \<le> y \<and> dominated xs ys)"

section \<open>The values of a float\<close>

text \<open>
  \<open>float(s)\<close> reads a finite number, an infinity (\<open>inf\<close>, \<open>-inf\<close>) or \<open>nan\<close>. A finite
  value is the real number it stands for. \<open>fless\<close> and \<open>fle\<close> are \<open><\<close> and \<open><=\<close> on
  floats: no comparison with \<open>nan\<close> holds.
\<close>

datatype pyfloat = Finite real | Pos_inf | Neg_inf | Nan

fun fless :: "pyfloat \<Rightarrow> pyfloat \<Rightarrow> bool" where
  "fless (Finite a) (Finite b) = (a < b)"
| "fless Nan y = False"
| "fless x Nan = False"
| "fless x Neg_inf = False"
| "fless Pos_inf y = False"
| "fless x y = True"

fun fle :: "pyfloat \<Rightarrow> pyfloat \<Rightarrow> bool" where
  "fle (Finite a) (Finite b) = (a \<le> b)"
| "fle Nan y = False"
| "fle x Nan = False"
| "fle Neg_inf y = True"
| "fle x Pos_inf = True"
| "fle x y = False"

section \<open>EquiMolar\_pooling\_v2\<close>

text \<open>
  The CSV is a list of rows, a row a list of cells (strings). Python's \<open>float\<close> is a
  parameter \<open>float_of\<close>: \<open>None\<close> where \<open>float(s)\<close> raises \<open>ValueError\<close>.

  The pipetting commands of the run; wells are named as the CSV names them, the
  destination of a transfer is a well of the tube block.
\<close>

datatype pool_cmd =
    Pool_pick_up_tip
  | Pool_mix nat real string
  | Pool_transfer pyfloat string string
  | Pool_drop_tip

text \<open>
  How the run can end early: with an exception of the sort key, with \<open>KeyError\<close> when
  \<open>source_plate[well_name]\<close> names no well of the plate, or out of tips when
  \<open>pick_up_tip\<close> finds the tip rack empty. Every other call into the vendor API is taken
  to return.
\<close>

datatype pool_error = Sort_key_error py_error | Pool_KeyError | Pool_OutOfTipsError

text \<open>The sort key \<open>float(row[1])\<close> of a row, or the exception it raises.\<close>

definition row_key :: "(string \<Rightarrow> pyfloat option) \<Rightarrow> string list \<Rightarrow> py_error + pyfloat" where
  "row_key float_of row =
     (if length row < 2 then Inl IndexError
      else case float_of (row ! 1) of None \<Rightarrow> Inl ValueError | Some v \<Rightarrow> Inr v)"

text \<open>The keys of all rows, in order, or the first exception.\<close>

primrec row_keys :: "(string \<Rightarrow> pyfloat option) \<Rightarrow> string list list \<Rightarrow> py_error + pyfloat list" where
  "row_keys float_of [] = Inr []"
| "row_keys float_of (row # rows) =
     (case row_key float_of row of
        Inl e \<Rightarrow> Inl e
      | Inr v \<Rightarrow> (case row_keys float_of rows of Inl e \<Rightarrow> Inl e | Inr vs \<Rightarrow> Inr (v # vs)))"

text \<open>
  \<open>list.sort(key=..., reverse=True)\<close> on rows paired with their keys. The sort compares
  keys with \<open><\<close> and is stable, also when reversed: the result is in descending order of
  the keys and rows with equal keys keep their order. \<open>insert_desc\<close> puts a row before
  the first row whose key is not above its own. When a key is \<open>nan\<close> the comparisons
  define no order and the result is what the interpreter's sorting algorithm leaves; that
  algorithm is not part of the repository, its result is the parameter \<open>nan_sorted\<close>.
\<close>

fun insert_desc :: "pyfloat \<times> 'a \<Rightarrow> (pyfloat \<times> 'a) list \<Rightarrow> (pyfloat \<times> 'a) list" where
  "insert_desc x [] = [x]"
| "insert_desc x (y # ys) = (if fle (fst y) (fst x) then x # y # ys else y # insert_desc x ys)"

definition sort_reverse ::
  "((pyfloat \<times> 'a) list \<Rightarrow> (pyfloat \<times> 'a) list) \<Rightarrow> (pyfloat \<times> 'a) list \<Rightarrow> (pyfloat \<times> 'a) list" where
  "sort_reverse nan_sorted keyed =
     (if Nan \<in> set (map fst keyed) then nan_sorted keyed else foldr insert_desc keyed [])"

definition pooling_transfer :: "pyfloat \<times> string list \<Rightarrow> pool_cmd list" where
  "pooling_transfer = (\<lambda>(volume, row).
     [Pool_pick_up_tip,
      Pool_mix 3 15 (row ! 0),
      Pool_transfer volume (row ! 0) ''A1'',
      Pool_drop_tip])"

text \<open>The one tip rack the script loads holds 96 tips.\<close>

definition tiprack_tips :: nat where
  "tiprack_tips = 96"

text \<open>
  \<open>run\<close>: the header row is skipped and the data rows are sorted; an exception of the sort
  key is raised before any command. The first loop looks every row's well up on the
  source plate, \<open>has_well\<close> telling which names the plate has: the first name it lacks
  raises \<open>KeyError\<close>, still before any command. The second loop transfers each row with a
  tip of its own, as long as the rack has tips.
\<close>

definition pooling_run ::
  "(string \<Rightarrow> bool) \<Rightarrow> (string \<Rightarrow> pyfloat option)
     \<Rightarrow> ((pyfloat \<times> string list) list \<Rightarrow> (pyfloat \<times> string list) list)
     \<Rightarrow> string list list \<Rightarrow> pool_cmd list \<times> pool_error option" where
  "pooling_run has_well float_of nan_sorted csv_rows =
     (let transfer_data = drop 1 csv_rows in
      case row_keys float_of transfer_data of
        Inl e \<Rightarrow> ([], Some (Sort_key_error e))
      | Inr vs \<Rightarrow>
          (let sorted_data = sort_reverse nan_sorted (zip vs transfer_data) in
           if \<exists>(volume, row) \<in> set sorted_data. \<not> has_well (row ! 0)
           then ([], Some Pool_KeyError)
           else if length sorted_data \<le> tiprack_tips
                then (concat (map pooling_transfer sorted_data), None)
                else (concat (map pooling_transfer (take tiprack_tips sorted_data)),
                      Some Pool_OutOfTipsError)))"

text \<open>The transfers among the commands, in order: volume, source well, destination tube.\<close>

fun transfers :: "pool_cmd list \<Rightarrow> (pyfloat \<times> string \<times> string) list" where
  "transfers [] = []"
| "transfers (Pool_transfer v src dst # cs) = (v, src, dst) # transfers cs"
| "transfers (c # cs) = transfers cs"

text \<open>
  The wells of a 96-well plate, \<open>A1\<close> to \<open>H12\<close>, and an upload that reads a well the
  plate does not have.
\<close>

definition wells_96 :: "string list" where
  "wells_96 = concat (map (\<lambda>r. map (\<lambda>c. r # c)
                             (map (\<lambda>d. [d]) ''123456789'' @ [''10'', ''11'', ''12'']))
                          ''ABCDEFGH'')"

definition pool_float :: "string \<Rightarrow> pyfloat option" where
  "pool_float = map_of [(''5'', Finite 5), (''12.5'', Finite 12.5), (''8'', Finite 8),
                        (''nan'', Nan)]"

section \<open>MultiPlateDilutions\_v6\<close>

subsection \<open>Parsing and validation\<close>

record well_row =
  source_plate :: int
  source_well :: string
  destination_plate :: int
  destination_well :: string
  sample_volume :: real
  water_volume :: real
  initial_sample_volume :: real

text \<open>\<open>int(x)\<close> of a float truncates towards zero.\<close>

definition py_int :: "real \<Rightarrow> int" where
  "py_int x = (if 0 \<le> x then \<lfloor>x\<rfloor> else \<lceil>x\<rceil>)"

text \<open>
  \<open>str.strip()\<close>: leading and trailing whitespace removed. A character is one of the
  first 256 code points; the whitespace among them is 9 to 13, 28 to 32, 133 and 160.
\<close>

definition is_space :: "char \<Rightarrow> bool" where
  "is_space c = (let n = (of_char c :: nat)
                 in (9 \<le> n \<and> n \<le> 13) \<or> (28 \<le> n \<and> n \<le> 32) \<or> n = 133 \<or> n = 160)"

definition strip :: "string \<Rightarrow> string" where
  "strip s = rev (dropWhile is_space (rev (dropWhile is_space s)))"

text \<open>
  One data row. A row with fewer than seven cells raises \<open>IndexError\<close>, a numeric cell
  that \<open>float\<close> rejects raises \<open>ValueError\<close>; the script catches both and raises
  \<open>ValueError\<close>, so every failure is \<open>None\<close>.
\<close>

definition parse_row :: "(string \<Rightarrow> real option) \<Rightarrow> string list \<Rightarrow> well_row option" where
  "parse_row float_of row =
     (if length row < 7 then None
      else case (float_of (row ! 0), float_of (row ! 2), float_of (row ! 4),
                 float_of (row ! 5), float_of (row ! 6)) of
             (Some sp, Some dp, Some sv, Some wv, Some iv) \<Rightarrow>
               Some \<lparr> source_plate = py_int sp,
                      source_well = strip (row ! 1),
                      destination_plate = py_int dp,
                      destination_well = strip (row ! 3),
                      sample_volume = sv,
                      water_volume = wv,
                      initial_sample_volume = iv \<rparr>
           | _ \<Rightarrow> None)"

primrec parse_rows :: "(string \<Rightarrow> real option) \<Rightarrow> string list list \<Rightarrow> well_row list option" where
  "parse_rows float_of [] = Some []"
| "parse_rows float_of (row # rows) =
     (case parse_row float_of row of
        None \<Rightarrow> None
      | Some r \<Rightarrow> (case parse_rows float_of rows of None \<Rightarrow> None | Some rs \<Rightarrow> Some (r # rs)))"

datatype validation_error =
    Source_plate_invalid nat int
  | Dest_plate_invalid nat int
  | Sample_volume_not_positive nat
  | Water_volume_negative nat
  | Initial_sample_volume_not_positive nat

definition row_errors :: "int \<Rightarrow> int \<Rightarrow> nat \<Rightarrow> well_row \<Rightarrow> validation_error list" where
  "row_errors num_source_plates num_destination_plates row_number row =
     (if source_plate row < 1 \<or> source_plate row > num_source_plates
      then [Source_plate_invalid row_number (source_plate row)] else [])
     @ (if destination_plate row < 1 \<or> destination_plate row > num_destination_plates
        then [Dest_plate_invalid row_number (destination_plate row)] else [])
     @ (if sample_volume row \<le> 0 then [Sample_volume_not_positive row_number] else [])
     @ (if water_volume row < 0 then [Water_volume_negative row_number] else [])
     @ (if initial_sample_volume row \<le> 0
        then [Initial_sample_volume_not_positive row_number] else [])"

definition validation_errors :: "int \<Rightarrow> int \<Rightarrow> well_row list \<Rightarrow> validation_error list" where
  "validation_errors num_source_plates num_destination_plates well_data =
     concat (map (\<lambda>(idx, row). row_errors num_source_plates num_destination_plates (idx + 2) row)
                 (enumerate 0 well_data))"

definition final_volume :: "well_row \<Rightarrow> real" where
  "final_volume row = sample_volume row + water_volume row"

definition wells_large_dilution :: "well_row list \<Rightarrow> well_row list" where
  "wells_large_dilution well_data = filter (\<lambda>row. final_volume row > 200) well_data"

definition wells_normal :: "well_row list \<Rightarrow> well_row list" where
  "wells_normal well_data = filter (\<lambda>row. \<not> final_volume row > 200) well_data"

definition wells_water_first :: "well_row list \<Rightarrow> well_row list" where
  "wells_water_first well_data = filter (\<lambda>row. water_volume row \<ge> 5) (wells_normal well_data)"

definition wells_water_after :: "well_row list \<Rightarrow> well_row list" where
  "wells_water_after well_data = filter (\<lambda>row. water_volume row < 5) (wells_normal well_data)"

definition total_water :: "well_row list \<Rightarrow> real" where
  "total_water well_data =
     sum_list (map water_volume (wells_normal well_data))
     + sum_list (map water_volume (wells_large_dilution well_data))"

definition total_water_with_buffer :: "well_row list \<Rightarrow> real" where
  "total_water_with_buffer well_data = total_water well_data + 50"

definition WATER_TUBE_CAPACITY :: real where
  "WATER_TUBE_CAPACITY = 1500"

definition num_water_tubes :: "well_row list \<Rightarrow> int" where
  "num_water_tubes well_data = \<lceil>total_water_with_buffer well_data / WATER_TUBE_CAPACITY\<rceil>"

definition num_reservoir_tubes_needed :: "well_row list \<Rightarrow> int" where
  "num_reservoir_tubes_needed well_data = int (length (wells_large_dilution well_data))"

definition dilution_tube_start_index :: "well_row list \<Rightarrow> int" where
  "dilution_tube_start_index well_data = num_water_tubes well_data"

definition total_tubes_needed :: "well_row list \<Rightarrow> int" where
  "total_tubes_needed well_data =
     num_water_tubes well_data + num_reservoir_tubes_needed well_data"

definition water_per_tube :: "well_row list \<Rightarrow> real" where
  "water_per_tube well_data =
     total_water_with_buffer well_data / real_of_int (num_water_tubes well_data)"




text \<open>
  How a run can fail. The first four are the \<open>ValueError\<close>s the script raises; an
  upload without any row fails with \<open>IndexError\<close> at \<open>headers = csv_rows[0]\<close>. The
  last two come from \<open>int\<close> and \<open>math.ceil\<close> on a float that is not a finite
  number: \<open>ValueError\<close> on \<open>nan\<close>, \<open>OverflowError\<close> on an infinity.
\<close>

datatype failure =
    Csv_parsing_error
  | Csv_validation_failed nat
  | Tube_rack_exceeded int
  | Ran_out_of_water_tubes
  | Headers_index_error
  | Nan_to_integer
  | Overflow_error

fun is_ValueError :: "failure \<Rightarrow> bool" where
  "is_ValueError Headers_index_error = False"
| "is_ValueError Overflow_error = False"
| "is_ValueError e = True"

text \<open>
  The part of \<open>run\<close> before the labware is loaded: parse, validate, count the tubes.
\<close>

definition prepare ::
  "(string \<Rightarrow> real option) \<Rightarrow> int \<Rightarrow> int \<Rightarrow> string list list \<Rightarrow> failure + well_row list" where
  "prepare float_of num_source_plates num_destination_plates csv_rows =
     (if csv_rows = [] then Inl Headers_index_error
      else case parse_rows float_of (drop 1 csv_rows) of
        None \<Rightarrow> Inl Csv_parsing_error
      | Some well_data \<Rightarrow>
          (let errors = validation_errors num_source_plates num_destination_plates well_data in
           if errors \<noteq> [] then Inl (Csv_validation_failed (length errors))
           else if total_tubes_needed well_data > 24
                then Inl (Tube_rack_exceeded (total_tubes_needed well_data))
                else Inr well_data))"

subsection \<open>Cells that are not finite numbers, and the arithmetic of floats\<close>

text \<open>
  \<open>float\<close> also reads the cells \<open>nan\<close>, \<open>inf\<close> and \<open>-inf\<close>, and the sums and the
  quotient the script computes are rounded, may overflow to an infinity, and are \<open>nan\<close>
  when an operand is. The definitions above take every numeric cell to be a finite number
  and compute exactly. The following ones repeat the part of \<open>run\<close> before the labware is
  loaded for all the values of a float. The addition of two floats, the \<open>sum\<close> of a list
  of floats and the division of a float by a positive integer are parameters, the fields
  of a \<open>float_ops\<close>: how they round is the interpreter's matter. \<open>int\<close> and \<open>math.ceil\<close>
  are exact on a finite float and raise \<open>ValueError\<close> on \<open>nan\<close> and \<open>OverflowError\<close> on
  an infinity.
\<close>

record float_ops =
  f_add :: "pyfloat \<Rightarrow> pyfloat \<Rightarrow> pyfloat"
  f_sum :: "pyfloat list \<Rightarrow> pyfloat"
  f_div :: "pyfloat \<Rightarrow> real \<Rightarrow> pyfloat"

fun int_of_float :: "pyfloat \<Rightarrow> failure + int" where
  "int_of_float (Finite x) = Inr (py_int x)"
| "int_of_float Nan = Inl Nan_to_integer"
| "int_of_float x = Inl Overflow_error"

fun math_ceil :: "pyfloat \<Rightarrow> failure + int" where
  "math_ceil (Finite x) = Inr \<lceil>x\<rceil>"
| "math_ceil Nan = Inl Nan_to_integer"
| "math_ceil x = Inl Overflow_error"

definition then_do :: "failure + 'a \<Rightarrow> ('a \<Rightarrow> failure + 'b) \<Rightarrow> failure + 'b" where
  "then_do r f = (case r of Inl e \<Rightarrow> Inl e | Inr x \<Rightarrow> f x)"

record raw_row =
  raw_source_plate :: int
  raw_source_well :: string
  raw_destination_plate :: int
  raw_destination_well :: string
  raw_sample_volume :: pyfloat
  raw_water_volume :: pyfloat
  raw_initial_sample_volume :: pyfloat

text \<open>
  The cells of a row are read from left to right inside \<open>try\<close>. \<open>IndexError\<close> and
  \<open>ValueError\<close>, also the one \<open>int\<close> raises on \<open>nan\<close>, are caught and raised again as
  the parsing error; the \<open>OverflowError\<close> of \<open>int\<close> on an infinity is not caught.
\<close>

definition text_cell :: "string list \<Rightarrow> nat \<Rightarrow> failure + string" where
  "text_cell row k = (if k < length row then Inr (strip (row ! k)) else Inl Csv_parsing_error)"

definition float_cell :: "(string \<Rightarrow> pyfloat option) \<Rightarrow> string list \<Rightarrow> nat \<Rightarrow> failure + pyfloat" where
  "float_cell float_of row k =
     (if k < length row
      then case float_of (row ! k) of None \<Rightarrow> Inl Csv_parsing_error | Some x \<Rightarrow> Inr x
      else Inl Csv_parsing_error)"

definition int_cell :: "(string \<Rightarrow> pyfloat option) \<Rightarrow> string list \<Rightarrow> nat \<Rightarrow> failure + int" where
  "int_cell float_of row k =
     then_do (float_cell float_of row k)
       (\<lambda>x. case int_of_float x of
               Inl Nan_to_integer \<Rightarrow> Inl Csv_parsing_error
             | r \<Rightarrow> r)"

definition parse_row_float :: "(string \<Rightarrow> pyfloat option) \<Rightarrow> string list \<Rightarrow> failure + raw_row" where
  "parse_row_float float_of row =
     then_do (int_cell float_of row 0) (\<lambda>sp.
     then_do (text_cell row 1) (\<lambda>sw.
     then_do (int_cell float_of row 2) (\<lambda>dp.
     then_do (text_cell row 3) (\<lambda>dw.
     then_do (float_cell float_of row 4) (\<lambda>sv.
     then_do (float_cell float_of row 5) (\<lambda>wv.
     then_do (float_cell float_of row 6) (\<lambda>iv.
       Inr \<lparr> raw_source_plate = sp, raw_source_well = sw,
             raw_destination_plate = dp, raw_destination_well = dw,
             raw_sample_volume = sv, raw_water_volume = wv,
             raw_initial_sample_volume = iv \<rparr>)))))))"

primrec parse_rows_float ::
  "(string \<Rightarrow> pyfloat option) \<Rightarrow> string list list \<Rightarrow> failure + raw_row list" where
  "parse_rows_float float_of [] = Inr []"
| "parse_rows_float float_of (row # rows) =
     then_do (parse_row_float float_of row) (\<lambda>r.
     then_do (parse_rows_float float_of rows) (\<lambda>rs. Inr (r # rs)))"

definition row_errors_float :: "int \<Rightarrow> int \<Rightarrow> nat \<Rightarrow> raw_row \<Rightarrow> validation_error list" where
  "row_errors_float num_source_plates num_destination_plates row_number row =
     (if raw_source_plate row < 1 \<or> raw_source_plate row > num_source_plates
      then [Source_plate_invalid row_number (raw_source_plate row)] else [])
     @ (if raw_destination_plate row < 1 \<or> raw_destination_plate row > num_destination_plates
        then [Dest_plate_invalid row_number (raw_destination_plate row)] else [])
     @ (if fle (raw_sample_volume row) (Finite 0)
        then [Sample_volume_not_positive row_number] else [])
     @ (if fless (raw_water_volume row) (Finite 0)
        then [Water_volume_negative row_number] else [])
     @ (if fle (raw_initial_sample_volume row) (Finite 0)
        then [Initial_sample_volume_not_positive row_number] else [])"

definition validation_errors_float :: "int \<Rightarrow> int \<Rightarrow> raw_row list \<Rightarrow> validation_error list" where
  "validation_errors_float num_source_plates num_destination_plates well_data =
     concat (map (\<lambda>(idx, row).
                    row_errors_float num_source_plates num_destination_plates (idx + 2) row)
                 (enumerate 0 well_data))"

definition final_volume_float :: "float_ops \<Rightarrow> raw_row \<Rightarrow> pyfloat" where
  "final_volume_float ops row = f_add ops (raw_sample_volume row) (raw_water_volume row)"

definition wells_large_dilution_float :: "float_ops \<Rightarrow> raw_row list \<Rightarrow> raw_row list" where
  "wells_large_dilution_float ops well_data =
     filter (\<lambda>row. fless (Finite 200) (final_volume_float ops row)) well_data"

definition wells_normal_float :: "float_ops \<Rightarrow> raw_row list \<Rightarrow> raw_row list" where
  "wells_normal_float ops well_data =
     filter (\<lambda>row. \<not> fless (Finite 200) (final_volume_float ops row)) well_data"

definition total_water_with_buffer_float :: "float_ops \<Rightarrow> raw_row list \<Rightarrow> pyfloat" where
  "total_water_with_buffer_float ops well_data =
     f_add ops
       (f_add ops (f_sum ops (map raw_water_volume (wells_normal_float ops well_data)))
                  (f_sum ops (map raw_water_volume (wells_large_dilution_float ops well_data))))
       (Finite 50)"

definition num_water_tubes_float :: "float_ops \<Rightarrow> raw_row list \<Rightarrow> failure + int" where
  "num_water_tubes_float ops well_data =
     math_ceil (f_div ops (total_water_with_buffer_float ops well_data) WATER_TUBE_CAPACITY)"

definition prepare_float ::
  "float_ops \<Rightarrow> (string \<Rightarrow> pyfloat option) \<Rightarrow> int \<Rightarrow> int \<Rightarrow> string list list
     \<Rightarrow> failure + raw_row list" where
  "prepare_float ops float_of num_source_plates num_destination_plates csv_rows =
     (if csv_rows = [] then Inl Headers_index_error
      else then_do (parse_rows_float float_of (drop 1 csv_rows)) (\<lambda>well_data.
        let errors = validation_errors_float num_source_plates num_destination_plates well_data
        in if errors \<noteq> [] then Inl (Csv_validation_failed (length errors))
           else then_do (num_water_tubes_float ops well_data) (\<lambda>num_water_tubes.
             let total_tubes_needed =
                   num_water_tubes + int (length (wells_large_dilution_float ops well_data))
             in if total_tubes_needed > 24 then Inl (Tube_rack_exceeded total_tubes_needed)
                else Inr well_data)))"

text \<open>
  \<open>exact_ops\<close>: the operations where no finite result needs rounding: with \<open>nan\<close> the
  result is \<open>nan\<close>, with an infinity it is that infinity (\<open>nan\<close> for the sum of opposite
  ones), and a finite result is exact. \<open>nan_csv\<close> is an upload whose only data row has
  \<open>nan\<close> for its water volume.
\<close>

fun fadd :: "pyfloat \<Rightarrow> pyfloat \<Rightarrow> pyfloat" where
  "fadd (Finite a) (Finite b) = Finite (a + b)"
| "fadd Nan y = Nan"
| "fadd x Nan = Nan"
| "fadd Pos_inf Neg_inf = Nan"
| "fadd Neg_inf Pos_inf = Nan"
| "fadd Pos_inf y = Pos_inf"
| "fadd x Pos_inf = Pos_inf"
| "fadd Neg_inf y = Neg_inf"
| "fadd x Neg_inf = Neg_inf"

fun fdiv :: "pyfloat \<Rightarrow> real \<Rightarrow> pyfloat" where
  "fdiv (Finite a) c = Finite (a / c)"
| "fdiv x c = x"

definition exact_ops :: float_ops where
  "exact_ops = \<lparr> f_add = fadd, f_sum = (\<lambda>xs. foldl fadd (Finite 0) xs), f_div = fdiv \<rparr>"

definition nan_float :: "string \<Rightarrow> pyfloat option" where
  "nan_float = map_of [(''1'', Finite 1), (''10'', Finite 10), (''50'', Finite 50),
                       (''nan'', Nan)]"

definition nan_csv :: "string list list" where
  "nan_csv =
     [[''Source Plate'', ''Source Well'', ''Dest Plate'', ''Dest Well'', ''Sample Vol'',
       ''Water Vol'', ''Initial Sample Vol''],
      [''1'', ''A1'', ''1'', ''A1'', ''10'', ''nan'', ''50'']]"

definition nan_row :: raw_row where
  "nan_row = \<lparr> raw_source_plate = 1, raw_source_well = ''A1'',
               raw_destination_plate = 1, raw_destination_well = ''A1'',
               raw_sample_volume = Finite 10, raw_water_volume = Nan,
               raw_initial_sample_volume = Finite 50 \<rparr>"

subsection \<open>Pipetting\<close>

text \<open>
  The commands issued to the pipette. \<open>Tube i\<close> is the tube of the 24-tube rack at
  position \<open>i\<close> of \<open>well_names_column_order\<close> (the water tubes first, the dilution
  tubes after them), \<open>Source_well p w\<close> and \<open>Dest_well p w\<close> are well \<open>w\<close> of
  source and destination plate number \<open>p\<close>. Heights within a well and flow rates are
  not recorded; comments and labware loading issue no command. Every call into the
  vendor API is taken to return.
\<close>

datatype location =
    Tube nat
  | Source_well int string
  | Dest_well int string

datatype cmd =
    P20_pick_up_tip
  | P20_drop_tip
  | Aspirate real location
  | Dispense real location
  | Air_gap real
  | Blow_out location
  | Touch_tip location
  | Mix nat real location

text \<open>
  The pattern the script repeats for every transfer of \<open>transfer_vol\<close>: aspirate, then
  an air gap of 0.5 that is dispensed with the liquid, unless the volume is below 0.5.
\<close>

definition move :: "real \<Rightarrow> location \<Rightarrow> location \<Rightarrow> cmd list" where
  "move transfer_vol src dst =
     Aspirate transfer_vol src
     # (if transfer_vol \<ge> 0.5
        then [Air_gap 0.5, Dispense (transfer_vol + 0.5) dst]
        else [Dispense transfer_vol dst])"

text \<open>
  The \<open>while water_vol_remaining > 0\<close> loop, written three times in the script with
  the same tube bookkeeping. The state is \<open>current_water_tube_index\<close> and
  \<open>water_remaining_in_current_tube\<close>; \<open>finish\<close> gives the commands that follow the
  dispense, from \<open>water_vol_remaining\<close> and \<open>transfer_vol\<close>. The result is the
  commands issued and the state after the loop, or \<open>None\<close> when the loop raises
  \<open>Ran out of water tubes\<close>.
\<close>

function water_loop ::
  "int \<Rightarrow> real \<Rightarrow> location \<Rightarrow> (real \<Rightarrow> real \<Rightarrow> cmd list) \<Rightarrow> int \<Rightarrow> real \<Rightarrow> real
     \<Rightarrow> cmd list \<times> (int \<times> real) option" where
  "water_loop n_tubes per_tube dest finish idx remaining water_vol_remaining =
     (if water_vol_remaining > 0
      then if remaining < 1 \<and> idx + 1 \<ge> n_tubes
           then ([], None)
           else (let idx1 = (if remaining < 1 then idx + 1 else idx);
                     remaining1 = (if remaining < 1 then per_tube else remaining);
                     transfer_vol = min (min water_vol_remaining remaining1) 19
                 in case water_loop n_tubes per_tube dest finish idx1
                           (remaining1 - transfer_vol) (water_vol_remaining - transfer_vol) of
                      (rest, st) \<Rightarrow>
                        (move transfer_vol (Tube (nat idx1)) dest
                         @ finish water_vol_remaining transfer_vol @ rest, st))
      else ([], Some (idx, remaining)))"
  by pat_completeness auto
termination
proof (relation "measures [\<lambda>(n, p, d, f, idx, r, w). nat (n - idx),
                           \<lambda>(n, p, d, f, idx, r, w). nat \<lceil>w\<rceil>]", goal_cases)
  case 1
  then show ?case by simp
next
  case (2 n_tubes per_tube dest finish idx remaining w idx1 remaining1 t)
  show ?case
  proof (cases "remaining < 1")
    case True
    with 2 show ?thesis by auto
  next
    case False
    have "0 < w" using 2 by simp
    have "\<lceil>w - min (min w remaining) 19\<rceil> < \<lceil>w\<rceil>"
    proof (cases "min (min w remaining) 19 = w")
      case True
      then show ?thesis using \<open>0 < w\<close> by simp
    next
      case neq: False
      with False have "1 \<le> min (min w remaining) 19" by (auto simp: min_def split: if_splits)
      then have "\<lceil>w - min (min w remaining) 19\<rceil> \<le> \<lceil>w - 1\<rceil>" by (intro ceiling_mono) simp
      then show ?thesis by simp
    qed
    moreover have "0 < \<lceil>w\<rceil>" using \<open>0 < w\<close> by simp
    ultimately show ?thesis using 2 False by auto
  qed
qed

declare water_loop.simps [simp del]

text \<open>
  A pass over rows: each item gives the destination, the commands after each dispense and
  the water volume of a row; \<open>first_cmds\<close> and \<open>last_cmds\<close> are issued around the loop of
  each row. The tube state carries over from row to row.
\<close>

fun water_pass ::
  "int \<Rightarrow> real \<Rightarrow> cmd list \<Rightarrow> cmd list \<Rightarrow> (location \<times> (real \<Rightarrow> real \<Rightarrow> cmd list) \<times> real) list
     \<Rightarrow> int \<Rightarrow> real \<Rightarrow> cmd list \<times> (int \<times> real) option" where
  "water_pass n_tubes per_tube first_cmds last_cmds [] idx remaining = ([], Some (idx, remaining))"
| "water_pass n_tubes per_tube first_cmds last_cmds ((dest, finish, water_vol) # items) idx remaining =
     (case water_loop n_tubes per_tube dest finish idx remaining water_vol of
        (c, None) \<Rightarrow> (first_cmds @ c, None)
      | (c, Some (idx1, remaining1)) \<Rightarrow>
          (case water_pass n_tubes per_tube first_cmds last_cmds items idx1 remaining1 of
             (cs, st) \<Rightarrow> (first_cmds @ c @ last_cmds @ cs, st)))"

definition mix_before_volume :: "well_row \<Rightarrow> real" where
  "mix_before_volume row = min (initial_sample_volume row * 0.8) 20"

definition mix_after_volume :: "well_row \<Rightarrow> real" where
  "mix_after_volume row = min (final_volume row * 0.8) 20"

definition source_of :: "well_row \<Rightarrow> location" where
  "source_of row = Source_well (source_plate row) (source_well row)"

definition dest_of :: "well_row \<Rightarrow> location" where
  "dest_of row = Dest_well (destination_plate row) (destination_well row)"

text \<open>The reservoir tube of the \<open>idx\<close>-th large dilution.\<close>

definition reservoir_tube :: "well_row list \<Rightarrow> nat \<Rightarrow> location" where
  "reservoir_tube well_data idx = Tube (nat (dilution_tube_start_index well_data + int idx))"

text \<open>
  The \<open>for i in range(num_transfers)\<close> loop of a sample above 19 microlitres;
  \<open>body i num_transfers transfer_vol\<close> gives the commands of one round.
\<close>

definition split_transfers :: "real \<Rightarrow> (nat \<Rightarrow> nat \<Rightarrow> real \<Rightarrow> cmd list) \<Rightarrow> cmd list" where
  "split_transfers sample_vol body =
     (let num_transfers = nat \<lceil>sample_vol / 19\<rceil> in
      concat (map (\<lambda>i. body i num_transfers
                          (if i = num_transfers - 1 then sample_vol - real i * 19 else 19))
                  [0 ..< num_transfers]))"

text \<open>Step 1: water into the reservoir tubes of the large dilutions, one tip.\<close>

definition reservoir_water_items ::
  "well_row list \<Rightarrow> (location \<times> (real \<Rightarrow> real \<Rightarrow> cmd list) \<times> real) list" where
  "reservoir_water_items well_data =
     map (\<lambda>(idx, row).
            (reservoir_tube well_data idx,
             (\<lambda>w t. [Blow_out (reservoir_tube well_data idx),
                      Blow_out (reservoir_tube well_data idx)]),
             water_volume row))
         (enumerate 0 (wells_large_dilution well_data))"

definition step_reservoir_water :: "well_row list \<Rightarrow> cmd list \<times> bool" where
  "step_reservoir_water well_data =
     (if wells_large_dilution well_data \<noteq> []
      then case water_pass (num_water_tubes well_data) (water_per_tube well_data) [] []
                  (reservoir_water_items well_data) 0 (water_per_tube well_data) of
             (c, None) \<Rightarrow> (P20_pick_up_tip # c, False)
           | (c, Some st) \<Rightarrow> (P20_pick_up_tip # c @ [P20_drop_tip], True)
      else ([], True))"

text \<open>Step 2: water into the destination wells of the water-first rows, one tip.\<close>

definition plate_water_items ::
  "well_row list \<Rightarrow> (location \<times> (real \<Rightarrow> real \<Rightarrow> cmd list) \<times> real) list" where
  "plate_water_items well_data =
     map (\<lambda>row.
            (dest_of row,
             (\<lambda>w t. [Blow_out (dest_of row), Touch_tip (dest_of row), Blow_out (dest_of row)]),
             water_volume row))
         (wells_water_first well_data)"

definition step_plate_water :: "well_row list \<Rightarrow> cmd list \<times> bool" where
  "step_plate_water well_data =
     (if wells_water_first well_data \<noteq> []
      then case water_pass (num_water_tubes well_data) (water_per_tube well_data) [] []
                  (plate_water_items well_data) 0 (water_per_tube well_data) of
             (c, None) \<Rightarrow> (P20_pick_up_tip # c, False)
           | (c, Some st) \<Rightarrow> (P20_pick_up_tip # c @ [P20_drop_tip], True)
      else ([], True))"

text \<open>
  Step 3: each large dilution with a tip of its own: the sample into the reservoir tube,
  then 19, 19 and 12 microlitres from the reservoir tube to the destination well.
\<close>

definition sample_to_reservoir :: "well_row \<Rightarrow> location \<Rightarrow> cmd list" where
  "sample_to_reservoir row tube =
     (if sample_volume row > 19
      then split_transfers (sample_volume row)
             (\<lambda>i num_transfers transfer_vol.
                (if i = 0 then [Mix 10 (mix_before_volume row) (source_of row)] else [])
                @ move transfer_vol (source_of row) tube
                @ (if i = num_transfers - 1 then [Mix 10 (mix_after_volume row) tube] else []))
      else [Mix 10 (mix_before_volume row) (source_of row)]
           @ move (sample_volume row) (source_of row) tube
           @ [Mix 10 (mix_after_volume row) tube])"

definition reservoir_to_plate :: "location \<Rightarrow> location \<Rightarrow> cmd list" where
  "reservoir_to_plate tube dest =
     [Aspirate 19 tube, Air_gap 0.5, Dispense 19.5 dest, Blow_out dest,
      Aspirate 19 tube, Air_gap 0.5, Dispense 19.5 dest, Blow_out dest,
      Aspirate 12 tube, Air_gap 0.5, Dispense 12.5 dest, Blow_out dest]"

definition large_dilution :: "well_row list \<Rightarrow> nat \<times> well_row \<Rightarrow> cmd list" where
  "large_dilution well_data = (\<lambda>(idx, row).
     [P20_pick_up_tip]
     @ sample_to_reservoir row (reservoir_tube well_data idx)
     @ reservoir_to_plate (reservoir_tube well_data idx) (dest_of row)
     @ [P20_drop_tip])"

definition step_large_dilutions :: "well_row list \<Rightarrow> cmd list" where
  "step_large_dilutions well_data =
     concat (map (large_dilution well_data) (enumerate 0 (wells_large_dilution well_data)))"

text \<open>Step 4: the samples of the water-first rows, a tip each.\<close>

definition sample_after_water :: "well_row \<Rightarrow> cmd list" where
  "sample_after_water row =
     [P20_pick_up_tip]
     @ (if sample_volume row > 19
        then split_transfers (sample_volume row)
               (\<lambda>i num_transfers transfer_vol.
                  (if i = 0 then [Mix 10 (mix_before_volume row) (source_of row)] else [])
                  @ move transfer_vol (source_of row) (dest_of row)
                  @ (if i = num_transfers - 1
                     then [Mix 10 (mix_after_volume row) (dest_of row)] else [])
                  @ [Blow_out (dest_of row), Touch_tip (dest_of row), Blow_out (dest_of row)])
        else [Mix 10 (mix_before_volume row) (source_of row)]
             @ move (sample_volume row) (source_of row) (dest_of row)
             @ [Mix 9 (mix_after_volume row) (dest_of row),
                Aspirate (mix_after_volume row) (dest_of row),
                Dispense (mix_after_volume row) (dest_of row),
                Blow_out (dest_of row), Touch_tip (dest_of row), Blow_out (dest_of row)])
     @ [P20_drop_tip]"

definition step_samples_water_first :: "well_row list \<Rightarrow> cmd list" where
  "step_samples_water_first well_data =
     concat (map sample_after_water (wells_water_first well_data))"

text \<open>Step 5: the samples of the water-after rows, a tip each.\<close>

definition sample_before_water :: "well_row \<Rightarrow> cmd list" where
  "sample_before_water row =
     [P20_pick_up_tip]
     @ (if sample_volume row > 19
        then split_transfers (sample_volume row)
               (\<lambda>i num_transfers transfer_vol.
                  (if i = 0 then [Mix 10 (mix_before_volume row) (source_of row)] else [])
                  @ move transfer_vol (source_of row) (dest_of row)
                  @ [Blow_out (dest_of row), Touch_tip (dest_of row), Blow_out (dest_of row)])
        else [Mix 10 (mix_before_volume row) (source_of row)]
             @ move (sample_volume row) (source_of row) (dest_of row)
             @ [Blow_out (dest_of row), Touch_tip (dest_of row), Blow_out (dest_of row)])
     @ [P20_drop_tip]"

definition step_samples_water_after :: "well_row list \<Rightarrow> cmd list" where
  "step_samples_water_after well_data =
     concat (map sample_before_water (wells_water_after well_data))"

text \<open>Step 6: the water of the water-after rows, a tip each, mixing after the last transfer.\<close>

definition water_after_items ::
  "well_row list \<Rightarrow> (location \<times> (real \<Rightarrow> real \<Rightarrow> cmd list) \<times> real) list" where
  "water_after_items well_data =
     map (\<lambda>row.
            (dest_of row,
             (\<lambda>w t. (if w - t \<le> 0
                      then [Mix 9 (mix_after_volume row) (dest_of row),
                            Aspirate (mix_after_volume row) (dest_of row),
                            Dispense (mix_after_volume row) (dest_of row)]
                      else [])
                     @ [Blow_out (dest_of row), Touch_tip (dest_of row), Blow_out (dest_of row)]),
             water_volume row))
         (wells_water_after well_data)"

definition step_water_after :: "well_row list \<Rightarrow> cmd list \<times> bool" where
  "step_water_after well_data =
     (if wells_water_after well_data \<noteq> []
      then case water_pass (num_water_tubes well_data) (water_per_tube well_data)
                  [P20_pick_up_tip] [P20_drop_tip]
                  (water_after_items well_data) 0 (water_per_tube well_data) of
             (c, None) \<Rightarrow> (c, False)
           | (c, Some st) \<Rightarrow> (c, True)
      else ([], True))"

text \<open>
  The six steps in order. A step that raises ends the run with the commands issued so far.
\<close>

definition pipetting :: "well_row list \<Rightarrow> cmd list \<times> failure option" where
  "pipetting well_data =
     (case step_reservoir_water well_data of
        (c1, False) \<Rightarrow> (c1, Some Ran_out_of_water_tubes)
      | (c1, True) \<Rightarrow>
     (case step_plate_water well_data of
        (c2, False) \<Rightarrow> (c1 @ c2, Some Ran_out_of_water_tubes)
      | (c2, True) \<Rightarrow>
     (case step_water_after well_data of
        (c6, False) \<Rightarrow>
          (c1 @ c2 @ step_large_dilutions well_data @ step_samples_water_first well_data
           @ step_samples_water_after well_data @ c6, Some Ran_out_of_water_tubes)
      | (c6, True) \<Rightarrow>
          (c1 @ c2 @ step_large_dilutions well_data @ step_samples_water_first well_data
           @ step_samples_water_after well_data @ c6, None))))"

text \<open>\<open>run\<close>: the commands issued and the exception that ended the run, if any.\<close>

definition run ::
  "(string \<Rightarrow> real option) \<Rightarrow> int \<Rightarrow> int \<Rightarrow> string list list \<Rightarrow> cmd list \<times> failure option" where
  "run float_of num_source_plates num_destination_plates csv_rows =
     (case prepare float_of num_source_plates num_destination_plates csv_rows of
        Inl e \<Rightarrow> ([], Some e)
      | Inr well_data \<Rightarrow> pipetting well_data)"

text \<open>\<open>pick_ups\<close> counts the tips picked up in a list of commands.\<close>

definition pick_ups :: "cmd list \<Rightarrow> nat" where
  "pick_ups cs = length (filter (\<lambda>c. c = P20_pick_up_tip) cs)"

subsection \<open>Wells that a plate lacks, and the tips\<close>

text \<open>
  \<open>pipetting\<close> and \<open>run\<close> above take every call into the vendor API to return. Two of
  them need not. A step looks the wells of a row up before it uses them, and
  \<open>plate[name]\<close> raises \<open>KeyError\<close> when the plate has no well of that name; validation
  does not look at the names. \<open>has_well\<close> tells which names a plate has: all the plates
  are loaded from one labware definition, which is the vendor's. And \<open>pick_up_tip\<close> raises
  when no tip is left of the 192 that the two tip racks of the script hold. The script
  catches neither exception: the run ends there, with the commands issued so far.
\<close>

datatype stop = Raised failure | KeyError | OutOfTipsError















subsection \<open>Auxiliary notions and an example upload\<close>

text \<open>
  \<open>row_ok\<close>: a row without validation error. \<open>supply_ok\<close>: what validation
  establishes about the volumes and the water supply. \<open>enough\<close>: the invariant of the
  tube bookkeeping: with \<open>demand\<close> the water still to be taken in the pass, the water
  left in the current tube and in the tubes after it exceeds the demand by one microlitre
  for each tube still to be abandoned, and one more.
\<close>

definition row_ok :: "int \<Rightarrow> int \<Rightarrow> well_row \<Rightarrow> bool" where
  "row_ok num_source_plates num_destination_plates row =
     (1 \<le> source_plate row \<and> source_plate row \<le> num_source_plates
      \<and> 1 \<le> destination_plate row \<and> destination_plate row \<le> num_destination_plates
      \<and> 0 < sample_volume row \<and> 0 \<le> water_volume row \<and> 0 < initial_sample_volume row)"

definition supply_ok :: "well_row list \<Rightarrow> bool" where
  "supply_ok well_data =
     ((\<forall>row \<in> set well_data. 0 < sample_volume row \<and> 0 \<le> water_volume row
                                \<and> 0 < initial_sample_volume row)
      \<and> 1 \<le> num_water_tubes well_data \<and> num_water_tubes well_data \<le> 24
      \<and> water_per_tube well_data * real_of_int (num_water_tubes well_data)
          = total_water well_data + 50
      \<and> 50 \<le> water_per_tube well_data
      \<and> sum_list (map water_volume (wells_large_dilution well_data)) \<le> total_water well_data
      \<and> sum_list (map water_volume (wells_water_first well_data)) \<le> total_water well_data
      \<and> sum_list (map water_volume (wells_water_after well_data)) \<le> total_water well_data)"

definition enough :: "int \<Rightarrow> real \<Rightarrow> int \<Rightarrow> real \<Rightarrow> real \<Rightarrow> bool" where
  "enough n_tubes per_tube idx remaining demand =
     (idx < n_tubes
      \<and> 1 \<le> remaining - demand + real_of_int (n_tubes - 1 - idx) * (per_tube - 1))"

text \<open>
  An upload with a header and three data rows: a large dilution (25 + 180 microlitres),
  a water-first row (10 + 30) and a water-after row (20.5 + 2); \<open>example_float\<close> reads
  the numbers that occur in it as \<open>float\<close> does.
\<close>

definition example_float :: "string \<Rightarrow> real option" where
  "example_float =
     map_of [(''1'', 1), (''2'', 2), (''25'', 25), (''180'', 180), (''50'', 50),
             (''10'', 10), (''30'', 30), (''40'', 40), (''20.5'', 20.5)]"

definition example_csv :: "string list list" where
  "example_csv =
     [[''Source Plate'', ''Source Well'', ''Dest Plate'', ''Dest Well'', ''Sample Vol'',
       ''Water Vol'', ''Initial Sample Vol''],
      [''1'', ''A1'', ''1'', ''A1'', ''25'', ''180'', ''50''],
      [''1'', ''B1'', ''1'', ''B1'', ''10'', ''30'', ''40''],
      [''1'', ''C1'', ''2'', ''C1'', ''20.5'', ''2'', ''30'']]"

definition example_rows :: "well_row list" where
  "example_rows =
     [\<lparr> source_plate = 1, source_well = ''A1'', destination_plate = 1,
        destination_well = ''A1'', sample_volume = 25, water_volume = 180,
        initial_sample_volume = 50 \<rparr>,
      \<lparr> source_plate = 1, source_well = ''B1'', destination_plate = 1,
        destination_well = ''B1'', sample_volume = 10, water_volume = 30,
        initial_sample_volume = 40 \<rparr>,
      \<lparr> source_plate = 1, source_well = ''C1'', destination_plate = 2,
        destination_well = ''C1'', sample_volume = 20.5, water_volume = 2,
        initial_sample_volume = 30 \<rparr>]"



section \<open>Auxiliary readings of the Flex events\<close>

text \<open>
  Auxiliary readings used in the proofs: whether an event is timed, the source lines of
  the timed events of a list, domination at every such line, the events of a 48-sample
  run that are timed (they depend on neither the sample count nor the globals), the
  events other than the liquid-waste pause, and the use a 24-sample run makes of its
  reserved tip columns.
\<close>

fun is_timed :: "event \<Rightarrow> bool" where
  "is_timed (Delay l m) = True"
| "is_timed (Hold l m) = True"
| "is_timed e = False"

fun timed_lines :: "event list \<Rightarrow> nat list" where
  "timed_lines [] = []"
| "timed_lines (Delay l m # es) = l # timed_lines es"
| "timed_lines (Hold l m # es) = l # timed_lines es"
| "timed_lines (e # es) = timed_lines es"

definition dominated_lines :: "event list \<Rightarrow> event list \<Rightarrow> bool" where
  "dominated_lines xs ys =
     (\<forall>k \<in> set (timed_lines xs). dominated (timed_at k xs) (timed_at k ys))"

definition timed48 :: "bool \<Rightarrow> bool \<Rightarrow> event list" where
  "timed48 d h =
     shake48 d h 338 10 [] @ countdown48 357 (settling_time_binding d + 1)
     @ shake48 d h 387 1 [] @ countdown48 406 (settling_time_wash d + 1)
     @ shake48 d h 447 2 [] @ countdown48 466 (settling_time_wash d)
     @ (if \<not> d
        then shake48 d h 447 2 [] @ countdown48 466 (settling_time_wash d)
             @ shake48 d h 447 2 [] @ countdown48 466 (settling_time_wash d)
        else [])
     @ countdown48 524 (if \<not> d then 9 else 0.5)
     @ shake48 d h 480 5 [] @ countdown48 499 (settling_time d)"

definition not_liquid_pause :: "event \<Rightarrow> bool" where
  "not_liquid_pause e = (e \<noteq> Pause empty_liquid_waste)"

definition reserved_use :: "nat \<Rightarrow> event list \<times> runtime24 \<Rightarrow> bool" where
  "reserved_use n outcome =
     (case outcome of (es, r) \<Rightarrow>
        set (picked_up es)
          = int ` ({reagent_tips} \<union> set (supernatant_tips n) \<union> set (elution_tips n))
      \<and> length (remdups (picked_up es)) = 1 + 2 * n
      \<and> (\<forall>c \<in> set (remaining_tips n). int c \<notin> set (picked_up es))
      \<and> TIP1000 r = TIP1000 (initial_runtime24 n)
      \<and> TIP1000 r = 1 + 2 * int n
      \<and> fates (int reagent_tips) es = replicate 5 Return_tip
      \<and> (\<forall>c \<in> set (supernatant_tips n).
            fates (int c) es = replicate 5 Return_tip @ [Drop_tip])
      \<and> (\<forall>c \<in> set (elution_tips n). fates (int c) es = [Return_tip, Drop_tip])
      \<and> filter is_timed es = [])"

section \<open>Properties of the Flex protocols\<close>

subsection \<open>Running procedures in sequence\<close>

lemma fst_emit: "fst (emit es s) = es"
  by (simp add: emit_def)

lemma snd_emit: "snd (emit es s) = s"
  by (simp add: emit_def)

lemma fst_seq_Cons: "fst (seq (p # ps) s) = fst (p s) @ fst (seq ps (snd (p s)))"
  by (simp add: split_beta Let_def)

lemma snd_seq_Cons: "snd (seq (p # ps) s) = snd (seq ps (snd (p s)))"
  by (simp add: split_beta Let_def)

lemma fst_for_each_Cons:
  "fst (for_each (x # xs) body s) = fst (body x s) @ fst (for_each xs body (snd (body x s)))"
  by (simp add: split_beta Let_def)

lemma snd_for_each_Cons:
  "snd (for_each (x # xs) body s) = snd (for_each xs body (snd (body x s)))"
  by (simp add: split_beta Let_def)

lemma for_each_events:
  "(\<And>x s. list_all Q (fst (body x s))) \<Longrightarrow> list_all Q (fst (for_each xs body s))"
  by (induction xs arbitrary: s) (simp_all add: split_beta Let_def)

lemma for_each_state:
  "(\<And>x s. f (snd (body x s)) = f s) \<Longrightarrow> f (snd (for_each xs body s)) = f s"
  by (induction xs arbitrary: s) (simp_all add: split_beta Let_def)

lemma timed_at_append: "timed_at l (xs @ ys) = timed_at l xs @ timed_at l ys"
  by (induction l xs rule: timed_at.induct) simp_all

lemma for_each_untimed:
  "(\<And>x s. timed_at l (fst (body x s)) = []) \<Longrightarrow> timed_at l (fst (for_each xs body s)) = []"
  by (induction xs arbitrary: s) (simp_all add: split_beta Let_def timed_at_append)

declare seq.simps(2) [simp del] for_each.simps(2) [simp del]

lemmas proc_simps =
  fst_seq_Cons snd_seq_Cons fst_for_each_Cons snd_for_each_Cons fst_emit snd_emit
  timed_at_append

lemma timed_at_no_line: "l \<notin> set (timed_lines es) \<Longrightarrow> timed_at l es = []"
  by (induction es rule: timed_lines.induct) auto

lemma timed_at_untimed: "filter is_timed es = [] \<Longrightarrow> timed_at l es = []"
  by (induction es rule: timed_lines.induct) (auto split: if_splits)

lemma dominated_by_lines:
  assumes "\<forall>k \<in> set (timed_lines xs). dominated (timed_at k xs) (timed_at k ys)"
  shows "dominated (timed_at l xs) (timed_at l ys)"
proof (cases "l \<in> set (timed_lines xs)")
  case True
  with assms show ?thesis by blast
next
  case False
  then show ?thesis by (simp add: timed_at_no_line)
qed

lemma dominated_linesD: "dominated_lines xs ys \<Longrightarrow> dominated (timed_at l xs) (timed_at l ys)"
  unfolding dominated_lines_def by (rule dominated_by_lines)

lemma replicate_numeral: "replicate (numeral v) x = x # replicate (numeral v - 1) x"
  by (simp add: numeral_eq_Suc)

lemma ceiling_half: "\<lceil>1 / 2 :: real\<rceil> = 1"
  by (rule ceiling_unique) simp_all

lemma cols_cases:
  assumes "1 \<le> sample_count" "sample_count \<le> 48"
  shows "num_sample_columns sample_count \<in> set [1 ..< 7]"
proof -
  have "0 < \<lceil>real sample_count / real 8\<rceil>" using assms by simp
  moreover have "\<lceil>real sample_count / real 8\<rceil> \<le> 6" using assms by (simp add: ceiling_le_iff)
  ultimately have "1 \<le> nat \<lceil>real sample_count / real 8\<rceil>"
    and "nat \<lceil>real sample_count / real 8\<rceil> < 7"
    by linarith+
  then show ?thesis
    unfolding num_sample_columns_def ceil_div_def by simp
qed

subsection \<open>The dropped-tip counters\<close>

text \<open>
  Claim C8. In both Zymo scripts the tip-tracking operation leaves its counter below the
  threshold, whatever the state it starts from. \<open>tiptrack\<close> (48 samples) adds 8 to
  \<open>drop_count\<close>; when the sum reaches 150 it pauses with the message asking to empty
  the waste bin and sets the counter to 0, and otherwise it adds 8 and does not pause.
  \<open>drop_tips\<close> (24 samples) does the same with steps of 1 and the threshold 18.
\<close>

theorem tip_counter_reset:
  "drop_count (snd (tiptrack b g)) < 150
   \<and> (150 \<le> drop_count g + 8 \<longrightarrow>
        drop_count (snd (tiptrack b g)) = 0
        \<and> Pause empty_waste_bin48 \<in> set (fst (tiptrack b g)))
   \<and> (drop_count g + 8 < 150 \<longrightarrow>
        drop_count (snd (tiptrack b g)) = drop_count g + 8
        \<and> (\<forall>m. Pause m \<notin> set (fst (tiptrack b g))))
   \<and> DROP_COUNT (snd (drop_tips r)) < 18
   \<and> (18 \<le> DROP_COUNT r + 1 \<longrightarrow>
        DROP_COUNT (snd (drop_tips r)) = 0
        \<and> Pause empty_waste_bin24 \<in> set (fst (drop_tips r)))
   \<and> (DROP_COUNT r + 1 < 18 \<longrightarrow>
        DROP_COUNT (snd (drop_tips r)) = DROP_COUNT r + 1
        \<and> (\<forall>m. Pause m \<notin> set (fst (drop_tips r))))"
  by (simp add: tiptrack_def drop_tips_def Let_def)

text \<open>
  The 19th pick-up of a 48-sample run (144 tips counted so far) and the 18th drop of a
  24-sample counter reach the thresholds; the first operations of a run do not.
\<close>

theorem tip_counter_reset_witness:
  "150 \<le> drop_count (initial_globals48\<lparr>drop_count := 144\<rparr>) + 8
   \<and> drop_count (snd (tiptrack True (initial_globals48\<lparr>drop_count := 144\<rparr>))) = 0
   \<and> Pause empty_waste_bin48 \<in> set (fst (tiptrack True (initial_globals48\<lparr>drop_count := 144\<rparr>)))
   \<and> drop_count initial_globals48 + 8 < 150
   \<and> drop_count (snd (tiptrack True initial_globals48)) = 8
   \<and> 18 \<le> DROP_COUNT (initial_runtime24 3\<lparr>DROP_COUNT := 17\<rparr>) + 1
   \<and> DROP_COUNT (snd (drop_tips (initial_runtime24 3\<lparr>DROP_COUNT := 17\<rparr>))) = 0
   \<and> Pause empty_waste_bin24 \<in> set (fst (drop_tips (initial_runtime24 3\<lparr>DROP_COUNT := 17\<rparr>)))
   \<and> DROP_COUNT (initial_runtime24 3) + 1 < 18
   \<and> DROP_COUNT (snd (drop_tips (initial_runtime24 3))) = 1"
  using tip_counter_reset [of True "initial_globals48\<lparr>drop_count := 144\<rparr>"
                              "initial_runtime24 3\<lparr>DROP_COUNT := 17\<rparr>"]
        tip_counter_reset [of True initial_globals48 "initial_runtime24 3"]
  by (simp add: initial_globals48_def initial_runtime24_def)

subsection \<open>The 48-sample run: timed events and pauses\<close>

lemma tiptrack_untimed: "timed_at l (fst (tiptrack b g)) = []"
  by (simp add: tiptrack_def Let_def)

lemma tiptrack_waste_vol: "waste_vol (snd (tiptrack b g)) = waste_vol g"
  by (simp add: tiptrack_def Let_def)

lemma tiptrack_pause: "list_all not_liquid_pause (fst (tiptrack b g))"
  by (simp add: tiptrack_def Let_def not_liquid_pause_def empty_liquid_waste_def
      empty_waste_bin48_def)

lemma column_tips_untimed:
  "timed_at l (fst (for_each xs (\<lambda>m. seq [tiptrack True, emit [Drop_tip]]) g)) = []"
  by (rule for_each_untimed) (simp add: proc_simps tiptrack_untimed)

lemma column_mix_untimed:
  "timed_at l
     (fst (for_each xs (\<lambda>i. seq [if c i then tiptrack True else emit [], emit [Drop_tip]]) g))
   = []"
  by (rule for_each_untimed) (simp add: proc_simps tiptrack_untimed)

lemma column_tips_pause:
  "list_all not_liquid_pause (fst (for_each xs (\<lambda>m. seq [tiptrack True, emit [Drop_tip]]) g))"
  by (rule for_each_events) (simp add: proc_simps tiptrack_pause not_liquid_pause_def)

lemma column_mix_pause:
  "list_all not_liquid_pause
     (fst (for_each xs (\<lambda>i. seq [if c i then tiptrack True else emit [], emit [Drop_tip]]) g))"
  by (rule for_each_events) (simp add: proc_simps tiptrack_pause not_liquid_pause_def)

lemma column_tips_waste_vol:
  "waste_vol (snd (for_each xs (\<lambda>m. seq [tiptrack True, emit [Drop_tip]]) g)) = waste_vol g"
  by (rule for_each_state) (simp add: proc_simps tiptrack_waste_vol)

lemma column_mix_waste_vol:
  "waste_vol
     (snd (for_each xs (\<lambda>i. seq [if c i then tiptrack True else emit [], emit [Drop_tip]]) g))
   = waste_vol g"
  by (rule for_each_state) (simp add: proc_simps tiptrack_waste_vol)

lemma shake48_pause:
  "msg \<noteq> empty_liquid_waste \<Longrightarrow> list_all not_liquid_pause (shake48 d h l m msg)"
  by (simp add: shake48_def not_liquid_pause_def)

lemma countdown48_pause: "list_all not_liquid_pause (countdown48 l m)"
  by (simp add: countdown48_def not_liquid_pause_def list.pred_map comp_def list.pred_True)

lemma countdown48_replicate:
  "countdown48 l start = replicate (nat \<lceil>2 * start\<rceil>) (Delay l 0.5)"
proof -
  have "(0 - start) / (- 0.5) = 2 * start" by simp
  then show ?thesis
    by (simp add: countdown48_def np_arange_def map_replicate_const mult.commute)
qed

lemma bind48_timed:
  "timed_at l (fst (bind48 d h n g)) =
     timed_at l (shake48 d h 338 10 [] @ countdown48 357 (settling_time_binding d + 1)
       @ shake48 d h 387 1 [] @ countdown48 406 (settling_time_wash d + 1))"
  by (simp add: bind48_def remove_supernatant48_def proc_simps tiptrack_untimed
      column_mix_untimed column_tips_untimed shake48_def)

lemma wash48_timed:
  "timed_at l (fst (wash48 d h n w g)) =
     timed_at l (shake48 d h 447 2 [] @ countdown48 466 (settling_time_wash d))"
  by (simp add: wash48_def remove_supernatant48_def proc_simps tiptrack_untimed
      column_tips_untimed shake48_def)

lemma elute48_timed:
  "timed_at l (fst (elute48 d h n g)) =
     timed_at l (shake48 d h 480 5 [] @ countdown48 499 (settling_time d))"
  by (simp add: elute48_def proc_simps tiptrack_untimed column_tips_untimed shake48_def)

lemma zymo48_timed: "timed_at l (fst (zymo48 d h n g)) = timed_at l (timed48 d h)"
  by (simp add: zymo48_def proc_simps bind48_timed wash48_timed elute48_timed timed48_def)

lemma timed48_dominated:
  "\<forall>h \<in> set [True, False]. dominated_lines (timed48 True h) (timed48 False h)"
  unfolding timed48_def countdown48_replicate dominated_lines_def
  by (simp add: shake48_def settling_time_def settling_time_binding_def settling_time_wash_def
      replicate_numeral ceiling_half)

lemma zymo48_dominated:
  "dominated (timed_at l (fst (zymo48 True h n g))) (timed_at l (fst (zymo48 False h n g)))"
  unfolding zymo48_timed using timed48_dominated
  by (intro dominated_linesD) (cases h, simp_all)

lemma bind48_pause: "list_all not_liquid_pause (fst (bind48 d h n g))"
  by (simp add: bind48_def remove_supernatant48_def proc_simps tiptrack_pause
      column_tips_pause column_mix_pause shake48_pause countdown48_pause
      empty_liquid_waste_def)

lemma wash48_pause: "list_all not_liquid_pause (fst (wash48 d h n w g))"
  by (simp add: wash48_def remove_supernatant48_def proc_simps tiptrack_pause
      column_tips_pause shake48_pause countdown48_pause empty_liquid_waste_def
      not_liquid_pause_def)

lemma elute48_pause: "list_all not_liquid_pause (fst (elute48 d h n g))"
  by (simp add: elute48_def proc_simps tiptrack_pause column_tips_pause
      shake48_pause countdown48_pause empty_liquid_waste_def not_liquid_pause_def)

lemma zymo48_pause: "list_all not_liquid_pause (fst (zymo48 d h n g))"
  by (simp add: zymo48_def proc_simps bind48_pause wash48_pause elute48_pause
      countdown48_pause)

lemma bind48_waste_vol: "waste_vol (snd (bind48 d h n g)) = waste_vol g"
  by (simp add: bind48_def remove_supernatant48_def proc_simps tiptrack_waste_vol
      column_tips_waste_vol column_mix_waste_vol)

lemma wash48_waste_vol: "waste_vol (snd (wash48 d h n w g)) = waste_vol g"
  by (simp add: wash48_def remove_supernatant48_def proc_simps tiptrack_waste_vol
      column_tips_waste_vol)

lemma elute48_waste_vol: "waste_vol (snd (elute48 d h n g)) = waste_vol g"
  by (simp add: elute48_def proc_simps tiptrack_waste_vol column_tips_waste_vol)

lemma zymo48_waste_vol: "waste_vol (snd (zymo48 d h n g)) = waste_vol g"
  by (simp add: zymo48_def proc_simps bind48_waste_vol wash48_waste_vol elute48_waste_vol)

text \<open>
  Claim C9. A run of the 48-sample script, whatever its dry-run flag, heater-shaker flag
  and sample count (up to the 48 the script serves), never issues the pause
  \<open>Please empty liquid waste before resuming.\<close>: no procedure of the run calls
  \<open>_waste_track\<close>. The global \<open>waste_vol\<close> is unbound when the run starts and still
  unbound when it ends, and in either state a call of \<open>_waste_track\<close> raises
  \<open>NameError\<close> instead of pausing.
\<close>

theorem liquid_waste_pause_never_occurs:
  "num_samples \<le> 48 \<longrightarrow>
     Pause empty_liquid_waste
       \<notin> set (fst (zymo48 dry_run heater_shaker num_samples initial_globals48))
   \<and> waste_vol initial_globals48 = None
   \<and> waste_vol (snd (zymo48 dry_run heater_shaker num_samples initial_globals48)) = None
   \<and> waste_track48 vol initial_globals48 = Inl NameError
   \<and> waste_track48 vol (snd (zymo48 dry_run heater_shaker num_samples initial_globals48))
       = Inl NameError"
proof -
  have "list_all not_liquid_pause
          (fst (zymo48 dry_run heater_shaker num_samples initial_globals48))"
    by (rule zymo48_pause)
  then have "Pause empty_liquid_waste
               \<notin> set (fst (zymo48 dry_run heater_shaker num_samples initial_globals48))"
    by (auto simp: list_all_iff not_liquid_pause_def)
  moreover
  have "waste_vol (snd (zymo48 dry_run heater_shaker num_samples initial_globals48)) = None"
    by (simp add: zymo48_waste_vol initial_globals48_def)
  ultimately show ?thesis
    by (simp add: waste_track48_def initial_globals48_def)
qed

text \<open>
  The run with the values \<open>get_values\<close> supplies (no dry run, heater-shaker, 48
  samples): it does pause twice for the tip waste bin, never for the liquid waste.
\<close>

theorem liquid_waste_pause_never_occurs_witness:
  "(48::nat) \<le> 48
   \<and> Pause empty_liquid_waste \<notin> set (fst (zymo48 False True 48 initial_globals48))
   \<and> waste_vol (snd (zymo48 False True 48 initial_globals48)) = None
   \<and> waste_track48 200 (snd (zymo48 False True 48 initial_globals48)) = Inl NameError
   \<and> length (filter (\<lambda>e. e = Pause empty_waste_bin48)
               (fst (zymo48 False True 48 initial_globals48))) = 2"
proof -
  have "length (filter (\<lambda>e. e = Pause empty_waste_bin48)
               (fst (zymo48 False True 48 initial_globals48))) = 2"
    by code_simp
  then show ?thesis
    using liquid_waste_pause_never_occurs [of 48 False True 200] by simp
qed


subsection \<open>The 24-sample run: reserved tips and timed events\<close>

lemma protocol24_reserved_use:
  "\<forall>n \<in> set [1 ..< 7]. \<forall>d \<in> set [True, False]. reserved_use n (protocol24 (timers_of d) n)"
  by code_simp

lemma zymo24_reserved_use:
  assumes "1 \<le> sample_count" "sample_count \<le> 48"
  shows "reserved_use (num_sample_columns sample_count) (zymo24 sample_count dry_run)"
proof -
  have "dry_run \<in> set [True, False]" by simp
  with cols_cases [OF assms] protocol24_reserved_use show ?thesis
    unfolding zymo24_def by blast
qed

text \<open>
  Claim C10. For every sample count from 1 to 48 and either dry-run setting, with
  \<open>n = \<lceil>sample_count / 8\<rceil>\<close> sample columns: the tip columns picked up during the run
  are exactly the reagent column, the \<open>n\<close> supernatant columns and the \<open>n\<close> elution
  columns, \<open>1 + 2 n\<close> columns in all; no column of \<open>remaining_tips\<close> is picked up and
  \<open>TIP1000\<close>, which only \<open>get_tips\<close> advances, keeps its initial value \<open>1 + 2 n\<close>.
  The reagent tips are returned after each of their five uses; each supernatant column is
  returned after its two uses in the binding step and after the first three washes and
  dropped in the final wash; each elution column is returned once and then dropped.
\<close>

theorem reserved_tip_columns:
  assumes "1 \<le> sample_count" and "sample_count \<le> 48"
  shows
    "num_sample_columns sample_count = nat \<lceil>real sample_count / real 8\<rceil>
     \<and> set (picked_up (fst (zymo24 sample_count dry_run)))
         = int ` ({reagent_tips}
                  \<union> set (supernatant_tips (num_sample_columns sample_count))
                  \<union> set (elution_tips (num_sample_columns sample_count)))
     \<and> card (set (picked_up (fst (zymo24 sample_count dry_run))))
         = 1 + 2 * num_sample_columns sample_count
     \<and> (\<forall>c \<in> set (remaining_tips (num_sample_columns sample_count)).
           int c \<notin> set (picked_up (fst (zymo24 sample_count dry_run))))
     \<and> TIP1000 (snd (zymo24 sample_count dry_run))
         = TIP1000 (initial_runtime24 (num_sample_columns sample_count))
     \<and> TIP1000 (snd (zymo24 sample_count dry_run))
         = 1 + 2 * int (num_sample_columns sample_count)
     \<and> fates (int reagent_tips) (fst (zymo24 sample_count dry_run)) = replicate 5 Return_tip
     \<and> (\<forall>c \<in> set (supernatant_tips (num_sample_columns sample_count)).
           fates (int c) (fst (zymo24 sample_count dry_run))
             = replicate 5 Return_tip @ [Drop_tip])
     \<and> (\<forall>c \<in> set (elution_tips (num_sample_columns sample_count)).
           fates (int c) (fst (zymo24 sample_count dry_run)) = [Return_tip, Drop_tip])"
proof -
  have "reserved_use (num_sample_columns sample_count) (zymo24 sample_count dry_run)"
    using assms by (rule zymo24_reserved_use)
  then have use:
    "set (picked_up (fst (zymo24 sample_count dry_run)))
         = int ` ({reagent_tips}
                  \<union> set (supernatant_tips (num_sample_columns sample_count))
                  \<union> set (elution_tips (num_sample_columns sample_count)))
     \<and> length (remdups (picked_up (fst (zymo24 sample_count dry_run))))
         = 1 + 2 * num_sample_columns sample_count
     \<and> (\<forall>c \<in> set (remaining_tips (num_sample_columns sample_count)).
           int c \<notin> set (picked_up (fst (zymo24 sample_count dry_run))))
     \<and> TIP1000 (snd (zymo24 sample_count dry_run))
         = TIP1000 (initial_runtime24 (num_sample_columns sample_count))
     \<and> TIP1000 (snd (zymo24 sample_count dry_run))
         = 1 + 2 * int (num_sample_columns sample_count)
     \<and> fates (int reagent_tips) (fst (zymo24 sample_count dry_run)) = replicate 5 Return_tip
     \<and> (\<forall>c \<in> set (supernatant_tips (num_sample_columns sample_count)).
           fates (int c) (fst (zymo24 sample_count dry_run))
             = replicate 5 Return_tip @ [Drop_tip])
     \<and> (\<forall>c \<in> set (elution_tips (num_sample_columns sample_count)).
           fates (int c) (fst (zymo24 sample_count dry_run)) = [Return_tip, Drop_tip])"
    unfolding reserved_use_def split_beta by blast
  have "num_sample_columns sample_count = nat \<lceil>real sample_count / real 8\<rceil>"
    unfolding num_sample_columns_def ceil_div_def by (rule refl)
  with use show ?thesis
    unfolding card_set by blast
qed

text \<open>Twenty samples: three sample columns, tip columns 0 to 6.\<close>

theorem reserved_tip_columns_witness:
  "(1::nat) \<le> 20 \<and> (20::nat) \<le> 48
   \<and> num_sample_columns 20 = 3
   \<and> set (picked_up (fst (zymo24 20 False))) = {0, 1, 2, 3, 4, 5, 6}
   \<and> card (set (picked_up (fst (zymo24 20 False)))) = 7
   \<and> TIP1000 (snd (zymo24 20 False)) = 7
   \<and> fates 2 (fst (zymo24 20 False)) = replicate 5 Return_tip @ [Drop_tip]
   \<and> fates 5 (fst (zymo24 20 False)) = [Return_tip, Drop_tip]"
proof -
  have n: "num_sample_columns 20 = 3"
    by code_simp
  have tips: "reagent_tips = 0" "supernatant_tips 3 = [1, 2, 3]" "elution_tips 3 = [4, 5, 6]"
    by code_simp+
  show ?thesis
    using reserved_tip_columns [of 20 False]
    by (simp add: n tips insert_commute)
qed


subsection \<open>Dry runs\<close>

lemma select_a_size_dominated:
  "1 \<le> magbead_incubation_time \<Longrightarrow>
   dominated (timed_at l (select_a_size True magbead_incubation_time))
             (timed_at l (select_a_size False magbead_incubation_time))"
  by (simp add: select_a_size_def)

lemma dominated_refl: "dominated xs xs"
  by (induction xs) simp_all

lemma dominated_append_right: "dominated xs ys \<Longrightarrow> dominated xs (ys @ zs)"
  by (induction xs ys rule: dominated.induct) simp_all

lemma dominated_append_same: "dominated xs ys \<Longrightarrow> dominated (zs @ xs) (zs @ ys)"
  by (induction zs) simp_all

lemma timed_at_replicate_Delay:
  "timed_at l (replicate n (Delay k m)) = (if k = l then replicate n m else [])"
  by (induction n) auto

lemma timed_at_holds:
  "l \<noteq> k \<Longrightarrow> timed_at l (concat (replicate n [Hold k a, Hold k b, Hold k c])) = []"
  by (induction n) simp_all

lemma library_prep_dominated:
  "dominated (timed_at l (library_prep True using_thermocycler))
             (timed_at l (library_prep False using_thermocycler))"
proof (cases "l = 160 \<or> l = 166")
  case True
  then show ?thesis
    by (auto simp: library_prep_def timed_at_append timed_at_replicate_Delay)
next
  case False
  then show ?thesis
    by (simp add: library_prep_def timed_at_append timed_at_holds dominated_refl)
qed

lemma zymo24_untimed:
  assumes "1 \<le> sample_count" "sample_count \<le> 48"
  shows "timed_at l (fst (zymo24 sample_count dry_run)) = []"
proof -
  have "reserved_use (num_sample_columns sample_count) (zymo24 sample_count dry_run)"
    using assms by (rule zymo24_reserved_use)
  then have "filter is_timed (fst (zymo24 sample_count dry_run)) = []"
    unfolding reserved_use_def split_beta by blast
  then show ?thesis by (rule timed_at_untimed)
qed

text \<open>
  Claim C7. The four protocols with a dry-run setting are \<open>SelectASizeCleaning\<close>, the
  24-sample and the 48-sample Zymo extraction and \<open>Zymo_LibraryPrep_TG_V2\<close>. In each,
  with all other inputs equal, consider the delay statement (or thermocycler profile)
  written at any source line \<open>l\<close>: the dry run executes it no more often than the
  normal run, and its k-th execution in the dry run is never longer than its k-th
  execution in the normal run. The inputs range over what each script accepts: an
  incubation time from 1 to 30 minutes, 1 to 48 samples for the 24-sample script, up to 48
  samples for the 48-sample script.
\<close>

theorem dry_run_never_longer:
  "(1 \<le> magbead_incubation_time \<and> magbead_incubation_time \<le> 30 \<longrightarrow>
      dominated (timed_at l (select_a_size True magbead_incubation_time))
                (timed_at l (select_a_size False magbead_incubation_time)))
   \<and> (1 \<le> sample_count \<and> sample_count \<le> 48 \<longrightarrow>
      dominated (timed_at l (fst (zymo24 sample_count True)))
                (timed_at l (fst (zymo24 sample_count False))))
   \<and> (num_samples \<le> 48 \<longrightarrow>
      dominated (timed_at l (fst (zymo48 True heater_shaker num_samples g)))
                (timed_at l (fst (zymo48 False heater_shaker num_samples g))))
   \<and> dominated (timed_at l (library_prep True using_thermocycler))
               (timed_at l (library_prep False using_thermocycler))"
  by (simp add: select_a_size_dominated zymo24_untimed zymo48_dominated
      library_prep_dominated)

text \<open>
  Sample runs: the magnet incubation of the cleanup (line 167) takes 0.5 instead of 5
  minutes; the wash shake of the 48-sample script (line 447) runs once for 0.25 minutes
  instead of three times for 2 minutes; the 10-minute hold of the library preparation
  (line 160) is skipped; the 24-sample script executes no timed delay in either mode.
\<close>

theorem dry_run_never_longer_witness:
  "(1::real) \<le> 5 \<and> (5::real) \<le> 30
   \<and> timed_at 167 (select_a_size True 5) = [0.5]
   \<and> timed_at 167 (select_a_size False 5) = [5]
   \<and> dominated (timed_at 167 (select_a_size True 5)) (timed_at 167 (select_a_size False 5))
   \<and> (1::nat) \<le> 24 \<and> (24::nat) \<le> 48
   \<and> dominated (timed_at 167 (fst (zymo24 24 True))) (timed_at 167 (fst (zymo24 24 False)))
   \<and> (48::nat) \<le> 48
   \<and> timed_at 447 (fst (zymo48 True True 48 initial_globals48)) = [0.25]
   \<and> timed_at 447 (fst (zymo48 False True 48 initial_globals48)) = [2, 2, 2]
   \<and> dominated (timed_at 447 (fst (zymo48 True True 48 initial_globals48)))
               (timed_at 447 (fst (zymo48 False True 48 initial_globals48)))
   \<and> timed_at 160 (library_prep True True) = []
   \<and> timed_at 160 (library_prep False True) = [10]
   \<and> dominated (timed_at 160 (library_prep True True)) (timed_at 160 (library_prep False True))"
proof -
  have a: "timed_at 167 (select_a_size True 5) = [0.5]"
          "timed_at 167 (select_a_size False 5) = [5]"
    by (simp_all add: select_a_size_def)
  have b: "timed_at 447 (fst (zymo48 True True 48 initial_globals48)) = [0.25]"
          "timed_at 447 (fst (zymo48 False True 48 initial_globals48)) = [2, 2, 2]"
    unfolding zymo48_timed timed48_def countdown48_replicate
    by (simp_all add: shake48_def settling_time_def settling_time_binding_def
        settling_time_wash_def replicate_numeral ceiling_half)
  have c: "timed_at 160 (library_prep True True) = []"
          "timed_at 160 (library_prep False True) = [10]"
    by (simp_all add: library_prep_def replicate_numeral)
  show ?thesis
    using dry_run_never_longer [of 5 167 24 48 True initial_globals48 True]
    by (simp add: a b c)
qed


section \<open>Properties of EquiMolar\_pooling\_v2\<close>

lemma row_keys_Inr:
  "row_keys float_of rows = Inr vs \<Longrightarrow>
   length vs = length rows \<and> map (row_key float_of) rows = map Inr vs"
  by (induction rows arbitrary: vs) (auto split: sum.splits)

lemma transfers_append: "transfers (xs @ ys) = transfers xs @ transfers ys"
  by (induction xs rule: transfers.induct) simp_all

lemma transfers_pooling:
  "transfers (concat (map pooling_transfer keyed))
     = map (\<lambda>(v, row). (v, row ! 0, ''A1'')) keyed"
  by (induction keyed) (auto simp: pooling_transfer_def transfers_append)

lemma fle_trans: "fle a b \<Longrightarrow> fle b c \<Longrightarrow> fle a c"
  by (cases a; cases b; cases c) simp_all

lemma fle_total: "a \<noteq> Nan \<Longrightarrow> b \<noteq> Nan \<Longrightarrow> fle a b \<or> fle b a"
  by (cases a; cases b) auto

lemma mset_insert_desc: "mset (insert_desc x ys) = add_mset x (mset ys)"
  by (induction ys) simp_all

lemma set_insert_desc: "set (insert_desc x ys) = insert x (set ys)"
  by (induction ys) auto

lemma mset_sort_reverse:
  "Nan \<notin> set (map fst keyed) \<Longrightarrow> mset (sort_reverse nan_sorted keyed) = mset keyed"
  unfolding sort_reverse_def by (induction keyed) (simp_all add: mset_insert_desc)

lemma sorted_insert_desc:
  assumes "sorted_wrt (\<lambda>s t. fle (fst t) (fst s)) ys"
    and "fst x \<noteq> Nan" and "\<forall>y \<in> set ys. fst y \<noteq> Nan"
  shows "sorted_wrt (\<lambda>s t. fle (fst t) (fst s)) (insert_desc x ys)"
  using assms
proof (induction ys)
  case Nil
  then show ?case by simp
next
  case (Cons y ys)
  show ?case
  proof (cases "fle (fst y) (fst x)")
    case True
    have "fle (fst z) (fst x)" if "z \<in> set ys" for z
    proof -
      from that Cons.prems(1) have "fle (fst z) (fst y)" by simp
      then show ?thesis using True by (rule fle_trans)
    qed
    with True Cons.prems(1) show ?thesis by simp
  next
    case False
    with fle_total [of "fst x" "fst y"] Cons.prems have xy: "fle (fst x) (fst y)" by simp
    from Cons.prems have "sorted_wrt (\<lambda>s t. fle (fst t) (fst s)) (insert_desc x ys)"
      by (intro Cons.IH) simp_all
    with False xy Cons.prems(1) show ?thesis
      by (simp add: set_insert_desc)
  qed
qed

lemma sort_reverse_descending:
  assumes "Nan \<notin> set (map fst keyed)"
  shows "sorted_wrt (\<lambda>s t. fle (fst t) (fst s)) (sort_reverse nan_sorted keyed)"
proof -
  have "sorted_wrt (\<lambda>s t. fle (fst t) (fst s)) (foldr insert_desc xs [])
        \<and> set (foldr insert_desc xs []) = set xs"
    if "\<forall>x \<in> set xs. fst x \<noteq> Nan" for xs :: "(pyfloat \<times> 'a) list"
    using that
  proof (induction xs)
    case Nil
    then show ?case by simp
  next
    case (Cons x xs)
    then have IH: "sorted_wrt (\<lambda>s t. fle (fst t) (fst s)) (foldr insert_desc xs [])"
      and S: "set (foldr insert_desc xs []) = set xs"
      by simp_all
    from Cons.prems have "fst x \<noteq> Nan" and "\<forall>y \<in> set (foldr insert_desc xs []). fst y \<noteq> Nan"
      unfolding S by simp_all
    from sorted_insert_desc [OF IH this] S show ?case
      by (simp add: set_insert_desc)
  qed
  moreover from assms have "\<forall>x \<in> set keyed. fst x \<noteq> Nan" by force
  ultimately show ?thesis
    using assms by (simp add: sort_reverse_def)
qed

text \<open>
  Claim C6 fails on the code. An upload whose row names the well \<open>Z9\<close>, which a 96-well
  plate does not have, stops with \<open>KeyError\<close> in the first loop: nothing is transferred.
  An upload with the volumes 5, \<open>nan\<close> and 8 is left in this order by the sort (no
  comparison with \<open>nan\<close> holds, and the interpreter's sort then moves nothing), so that
  the row of 5 microlitres comes before the row of 8.
\<close>

theorem pooling_well_missing_or_nan_volume:
  "pooling_run (\<lambda>w. w \<in> set wells_96) pool_float (\<lambda>keyed. keyed)
     [[''Well'', ''Volume''], [''Z9'', ''5'']] = ([], Some Pool_KeyError)
   \<and> ''Z9'' \<notin> set wells_96
   \<and> row_keys pool_float [[''Z9'', ''5'']] = Inr [Finite 5]
   \<and> row_keys pool_float [[''A1'', ''5''], [''B1'', ''nan''], [''C1'', ''8'']]
       = Inr [Finite 5, Nan, Finite 8]
   \<and> transfers (fst (pooling_run (\<lambda>w. w \<in> set wells_96) pool_float (\<lambda>keyed. keyed)
        [[''Well'', ''Volume''], [''A1'', ''5''], [''B1'', ''nan''], [''C1'', ''8'']]))
       = [(Finite 5, ''A1'', ''A1''), (Nan, ''B1'', ''A1''), (Finite 8, ''C1'', ''A1'')]
   \<and> snd (pooling_run (\<lambda>w. w \<in> set wells_96) pool_float (\<lambda>keyed. keyed)
        [[''Well'', ''Volume''], [''A1'', ''5''], [''B1'', ''nan''], [''C1'', ''8'']]) = None
   \<and> \<not> fle (Finite 8) (Finite 5)"
  by code_simp

text \<open>
  Claim C6, for uploads whose volumes are readable and none of them \<open>nan\<close>. The run
  completes exactly when every data row names a well of the source plate and there are
  at most 96 data rows, one tip each. When it completes the transfers are, as a multiset,
  exactly one transfer per data row (every row after the header), of the row's volume,
  from the well named in its first column into tube \<open>A1\<close> of the tube block; and in the
  order they are issued their volumes never increase.
\<close>

theorem pooling_rows_once_largest_first:
  assumes "row_keys float_of (drop 1 csv_rows) = Inr vols" and "Nan \<notin> set vols"
  shows "(snd (pooling_run has_well float_of nan_sorted csv_rows) = None \<longleftrightarrow>
            (\<forall>row \<in> set (drop 1 csv_rows). has_well (row ! 0))
            \<and> length (drop 1 csv_rows) \<le> 96)
       \<and> (snd (pooling_run has_well float_of nan_sorted csv_rows) = None \<longrightarrow>
            mset (transfers (fst (pooling_run has_well float_of nan_sorted csv_rows)))
              = mset (map (\<lambda>(v, row). (v, row ! 0, ''A1'')) (zip vols (drop 1 csv_rows)))
          \<and> length (transfers (fst (pooling_run has_well float_of nan_sorted csv_rows)))
              = length (drop 1 csv_rows)
          \<and> sorted_wrt (\<lambda>s t. fle (fst t) (fst s))
              (transfers (fst (pooling_run has_well float_of nan_sorted csv_rows)))
          \<and> (\<forall>t \<in> set (transfers (fst (pooling_run has_well float_of nan_sorted csv_rows))).
                snd (snd t) = ''A1''))"
proof -
  let ?rows = "drop 1 csv_rows"
  let ?sorted = "sort_reverse nan_sorted (zip vols ?rows)"
  let ?run = "pooling_run has_well float_of nan_sorted csv_rows"
  have len: "length vols = length ?rows"
    using row_keys_Inr [OF assms(1)] by simp
  then have fsts: "map fst (zip vols ?rows) = vols" and snds: "map snd (zip vols ?rows) = ?rows"
    by simp_all
  from assms(2) have nan: "Nan \<notin> set (map fst (zip vols ?rows))"
    unfolding fsts .
  have ms: "mset ?sorted = mset (zip vols ?rows)"
    using nan by (rule mset_sort_reverse)
  then have st: "set ?sorted = set (zip vols ?rows)"
    by (rule mset_eq_setD)
  have "length ?sorted = size (mset ?sorted)" by simp
  then have ln: "length ?sorted = length ?rows"
    unfolding ms using len by simp
  have wells: "(\<exists>(volume, row) \<in> set ?sorted. \<not> has_well (row ! 0))
                 \<longleftrightarrow> \<not> (\<forall>row \<in> set ?rows. has_well (row ! 0))"
  proof -
    have "snd ` set (zip vols ?rows) = set ?rows"
      using snds by (metis set_map)
    then have "(\<exists>x \<in> set (zip vols ?rows). \<not> has_well (snd x ! 0))
                 \<longleftrightarrow> (\<exists>row \<in> set ?rows. \<not> has_well (row ! 0))"
      by (metis (no_types, lifting) image_iff)
    then show ?thesis unfolding st by (simp add: split_beta)
  qed
  have compl: "snd ?run = None \<longleftrightarrow>
                (\<forall>row \<in> set ?rows. has_well (row ! 0)) \<and> length ?rows \<le> 96"
    using assms(1) wells ln
    by (simp add: pooling_run_def Let_def tiprack_tips_def del: drop_Suc_Cons)
  have cmds: "fst ?run = concat (map pooling_transfer ?sorted)" if "snd ?run = None"
    using that assms(1)
    by (simp add: pooling_run_def Let_def split: if_splits)
  have tr: "transfers (fst ?run) = map (\<lambda>(v, row). (v, row ! 0, ''A1'')) ?sorted"
    if "snd ?run = None"
    unfolding cmds [OF that] by (rule transfers_pooling)
  have props: "mset (transfers (fst ?run))
              = mset (map (\<lambda>(v, row). (v, row ! 0, ''A1'')) (zip vols ?rows))
          \<and> length (transfers (fst ?run)) = length ?rows
          \<and> sorted_wrt (\<lambda>s t. fle (fst t) (fst s)) (transfers (fst ?run))
          \<and> (\<forall>t \<in> set (transfers (fst ?run)). snd (snd t) = ''A1'')"
    if c: "snd ?run = None"
  proof (intro conjI)
    show "mset (transfers (fst ?run))
            = mset (map (\<lambda>(v, row). (v, row ! 0, ''A1'')) (zip vols ?rows))"
      unfolding tr [OF c] by (simp only: mset_map ms)
    show "length (transfers (fst ?run)) = length ?rows"
      unfolding tr [OF c] using ln by simp
    have "sorted_wrt (\<lambda>s t. fle (fst t) (fst s)) ?sorted"
      using nan by (rule sort_reverse_descending)
    then show "sorted_wrt (\<lambda>s t. fle (fst t) (fst s)) (transfers (fst ?run))"
      unfolding tr [OF c] by (simp add: sorted_wrt_map split_beta)
    show "\<forall>t \<in> set (transfers (fst ?run)). snd (snd t) = ''A1''"
      unfolding tr [OF c] by auto
  qed
  from compl props show ?thesis by blast
qed

text \<open>
  A pooling sheet with three samples: the run transfers 12.5, 8 and 5 microlitres, in that
  order, each with a fresh tip and after mixing the source well.
\<close>

theorem pooling_rows_once_largest_first_witness:
  "row_keys pool_float (drop 1 [[''Well'', ''Volume''], [''A1'', ''5''], [''B1'', ''12.5''], [''C1'', ''8'']])
     = Inr [Finite 5, Finite 12.5, Finite 8]
   \<and> Nan \<notin> set [Finite 5, Finite 12.5, Finite 8]
   \<and> pooling_run (\<lambda>w. w \<in> set wells_96) pool_float (\<lambda>keyed. keyed)
       [[''Well'', ''Volume''], [''A1'', ''5''], [''B1'', ''12.5''], [''C1'', ''8'']]
     = ([Pool_pick_up_tip, Pool_mix 3 15 ''B1'', Pool_transfer (Finite 12.5) ''B1'' ''A1'', Pool_drop_tip,
         Pool_pick_up_tip, Pool_mix 3 15 ''C1'', Pool_transfer (Finite 8) ''C1'' ''A1'', Pool_drop_tip,
         Pool_pick_up_tip, Pool_mix 3 15 ''A1'', Pool_transfer (Finite 5) ''A1'' ''A1'', Pool_drop_tip],
        None)
   \<and> sorted_wrt (\<lambda>s t. fle (fst t) (fst s))
       (transfers (fst (pooling_run (\<lambda>w. w \<in> set wells_96) pool_float (\<lambda>keyed. keyed)
          [[''Well'', ''Volume''], [''A1'', ''5''], [''B1'', ''12.5''], [''C1'', ''8'']])))
   \<and> length (transfers (fst (pooling_run (\<lambda>w. w \<in> set wells_96) pool_float (\<lambda>keyed. keyed)
          [[''Well'', ''Volume''], [''A1'', ''5''], [''B1'', ''12.5''], [''C1'', ''8'']]))) = 3"
proof -
  let ?csv = "[[''Well'', ''Volume''], [''A1'', ''5''], [''B1'', ''12.5''], [''C1'', ''8'']]"
  have k: "row_keys pool_float (drop 1 ?csv) = Inr [Finite 5, Finite 12.5, Finite 8]"
    by code_simp
  have n: "Nan \<notin> set [Finite 5, Finite 12.5, Finite 8]"
    by simp
  have r: "pooling_run (\<lambda>w. w \<in> set wells_96) pool_float (\<lambda>keyed. keyed) ?csv
     = ([Pool_pick_up_tip, Pool_mix 3 15 ''B1'', Pool_transfer (Finite 12.5) ''B1'' ''A1'', Pool_drop_tip,
         Pool_pick_up_tip, Pool_mix 3 15 ''C1'', Pool_transfer (Finite 8) ''C1'' ''A1'', Pool_drop_tip,
         Pool_pick_up_tip, Pool_mix 3 15 ''A1'', Pool_transfer (Finite 5) ''A1'' ''A1'', Pool_drop_tip],
        None)"
    by code_simp
  then have c: "snd (pooling_run (\<lambda>w. w \<in> set wells_96) pool_float (\<lambda>keyed. keyed) ?csv) = None"
    by simp
  note t = pooling_rows_once_largest_first [OF k n, of "\<lambda>w. w \<in> set wells_96" "\<lambda>keyed. keyed",
      THEN conjunct2, rule_format, OF c]
  from t have "sorted_wrt (\<lambda>s t. fle (fst t) (fst s))
       (transfers (fst (pooling_run (\<lambda>w. w \<in> set wells_96) pool_float (\<lambda>keyed. keyed) ?csv)))"
    by blast
  moreover from t have "length (transfers (fst (pooling_run (\<lambda>w. w \<in> set wells_96) pool_float
       (\<lambda>keyed. keyed) ?csv))) = length (drop 1 ?csv)"
    by blast
  ultimately show ?thesis using k n r by simp
qed

section \<open>Properties of MultiPlateDilutions\_v6\<close>

subsection \<open>What validation establishes\<close>

lemma parse_rows_Some:
  "parse_rows float_of rows = Some rs \<Longrightarrow> map (parse_row float_of) rows = map Some rs"
  by (induction rows arbitrary: rs) (auto split: option.splits)

lemma parse_rows_None:
  "parse_rows float_of rows = None \<longleftrightarrow> (\<exists>row \<in> set rows. parse_row float_of row = None)"
  by (induction rows) (auto split: option.splits)

lemma row_errors_Nil: "row_errors nsp ndp k row = [] \<longleftrightarrow> row_ok nsp ndp row"
  by (auto simp: row_errors_def row_ok_def)

lemma validation_errors_enumerate:
  "concat (map (\<lambda>(idx, row). row_errors nsp ndp (idx + 2) row) (enumerate k rows)) = []
     \<longleftrightarrow> (\<forall>row \<in> set rows. row_ok nsp ndp row)"
  by (induction rows arbitrary: k) (auto simp: row_errors_Nil)

lemma validation_errors_Nil:
  "validation_errors nsp ndp well_data = [] \<longleftrightarrow> (\<forall>row \<in> set well_data. row_ok nsp ndp row)"
  unfolding validation_errors_def by (rule validation_errors_enumerate)

lemma prepare_Inr:
  "prepare float_of nsp ndp csv_rows = Inr well_data \<longleftrightarrow>
     csv_rows \<noteq> [] \<and> parse_rows float_of (drop 1 csv_rows) = Some well_data
     \<and> (\<forall>row \<in> set well_data. row_ok nsp ndp row) \<and> total_tubes_needed well_data \<le> 24"
  by (auto simp: prepare_def Let_def validation_errors_Nil split: option.splits)

lemma sum_list_water_nonneg:
  "\<forall>row \<in> set rows. 0 \<le> water_volume row \<Longrightarrow> 0 \<le> sum_list (map water_volume rows)"
  by (induction rows) auto

lemma sum_list_filter_le:
  "\<forall>row \<in> set rows. 0 \<le> water_volume row \<Longrightarrow>
   sum_list (map water_volume (filter P rows)) \<le> sum_list (map water_volume rows)"
  by (induction rows) auto

lemma prepare_supply_ok:
  assumes "prepare float_of nsp ndp csv_rows = Inr well_data"
  shows "supply_ok well_data"
proof -
  from assms have ok: "\<forall>row \<in> set well_data. row_ok nsp ndp row"
    and tubes: "total_tubes_needed well_data \<le> 24"
    by (simp_all add: prepare_Inr)
  then have w: "\<forall>row \<in> set well_data. 0 \<le> water_volume row"
    by (simp add: row_ok_def)
  have norm: "0 \<le> sum_list (map water_volume (wells_normal well_data))"
    and large: "0 \<le> sum_list (map water_volume (wells_large_dilution well_data))"
    using w by (simp_all add: wells_normal_def wells_large_dilution_def sum_list_water_nonneg)
  then have T: "0 \<le> total_water well_data" by (simp add: total_water_def)
  let ?T = "total_water well_data + 50"
  let ?n = "num_water_tubes well_data"
  have n_def: "?n = \<lceil>?T / 1500\<rceil>"
    by (simp add: num_water_tubes_def total_water_with_buffer_def WATER_TUBE_CAPACITY_def)
  have "0 < ?T / 1500" using T by simp
  then have n1: "1 \<le> ?n" unfolding n_def by linarith
  have "0 \<le> num_reservoir_tubes_needed well_data"
    by (simp add: num_reservoir_tubes_needed_def)
  with tubes have n24: "?n \<le> 24" by (simp add: total_tubes_needed_def)
  have prod: "water_per_tube well_data * real_of_int ?n = ?T"
    using n1 by (simp add: water_per_tube_def total_water_with_buffer_def)
  have per: "50 \<le> water_per_tube well_data"
  proof (cases "?n = 1")
    case True
    then show ?thesis using T by (simp add: water_per_tube_def total_water_with_buffer_def)
  next
    case False
    with n1 have n2: "2 \<le> ?n" by simp
    have "real_of_int ?n - 1 < ?T / 1500" unfolding n_def by linarith
    then have "1500 * (real_of_int ?n - 1) < ?T" by simp
    moreover have "50 * real_of_int ?n \<le> 1500 * (real_of_int ?n - 1)"
      using n2 by simp
    ultimately have "50 * real_of_int ?n \<le> ?T" by simp
    then show ?thesis using n1
      by (simp add: water_per_tube_def total_water_with_buffer_def pos_le_divide_eq)
  qed
  have first: "sum_list (map water_volume (wells_water_first well_data))
                 \<le> sum_list (map water_volume (wells_normal well_data))"
    and after: "sum_list (map water_volume (wells_water_after well_data))
                 \<le> sum_list (map water_volume (wells_normal well_data))"
    unfolding wells_water_first_def wells_water_after_def
    by (rule sum_list_filter_le, use w in \<open>simp add: wells_normal_def\<close>)+
  show ?thesis
    unfolding supply_ok_def
    using ok n1 n24 prod per norm large first after
    by (simp add: row_ok_def total_water_def)
qed

subsection \<open>The water never runs out\<close>

lemma water_loop_done:
  "\<not> 0 < w \<Longrightarrow> water_loop n p dest finish idx r w = ([], Some (idx, r))"
  by (subst water_loop.simps) simp

lemma water_loop_enough:
  assumes "enough n p idx r (w + later)" and "0 \<le> w" and "0 \<le> later"
  shows "\<exists>c idx1 r1. water_loop n p dest finish idx r w = (c, Some (idx1, r1))
                      \<and> enough n p idx1 r1 later"
  using assms
proof (induction n p dest finish idx r w rule: water_loop.induct)
  case (1 n p dest finish idx r w)
  show ?case
  proof (cases "0 < w")
    case False
    with 1 have "w = 0" by simp
    with 1 show ?thesis by (simp add: enough_def water_loop_done)
  next
    case True
    from "1.prems" have lt: "idx < n"
      and s: "1 \<le> r - (w + later) + real_of_int (n - 1 - idx) * (p - 1)"
      by (simp_all add: enough_def)
    have no_raise: "\<not> (r < 1 \<and> n \<le> idx + 1)"
    proof
      assume a: "r < 1 \<and> n \<le> idx + 1"
      with lt have "n - 1 - idx = 0" by simp
      with s have "1 \<le> r - (w + later)" by simp
      with a True \<open>0 \<le> later\<close> show False by simp
    qed
    define idx1 where "idx1 = (if r < 1 then idx + 1 else idx)"
    define r1 where "r1 = (if r < 1 then p else r)"
    define t where "t = min (min w r1) 19"
    have tw: "t \<le> w" by (simp add: t_def)
    have e: "enough n p idx1 (r1 - t) (w - t + later)"
    proof (cases "r < 1")
      case True
      with no_raise have "idx + 1 < n" by simp
      moreover have "real_of_int (n - 1 - idx) = real_of_int (n - 1 - (idx + 1)) + 1" by simp
      then have "real_of_int (n - 1 - idx) * (p - 1)
                   = real_of_int (n - 1 - (idx + 1)) * (p - 1) + (p - 1)"
        by (simp only: distrib_right mult_1)
      ultimately show ?thesis using s True
        by (simp add: enough_def idx1_def r1_def)
    next
      case False
      then show ?thesis using s lt by (simp add: enough_def idx1_def r1_def)
    qed
    have "\<exists>c i2 r2. water_loop n p dest finish idx1 (r1 - t) (w - t) = (c, Some (i2, r2))
                     \<and> enough n p i2 r2 later"
      using "1.IH" [OF True no_raise idx1_def r1_def t_def e] tw \<open>0 \<le> later\<close> by simp
    then obtain c i2 r2 where
      rec: "water_loop n p dest finish idx1 (r1 - t) (w - t) = (c, Some (i2, r2))"
      and e2: "enough n p i2 r2 later" by blast
    have "water_loop n p dest finish idx r w
            = (move t (Tube (nat idx1)) dest @ finish w t @ c, Some (i2, r2))"
      using True no_raise rec
      by (subst water_loop.simps) (simp add: Let_def idx1_def r1_def t_def)
    with e2 show ?thesis by blast
  qed
qed

lemma water_pass_enough:
  assumes "enough n p idx r (sum_list (map (\<lambda>(d, f, w). w) items))"
    and "\<forall>(d, f, w) \<in> set items. 0 \<le> w"
  shows "\<exists>c st. water_pass n p b a items idx r = (c, Some st)"
  using assms
proof (induction items arbitrary: idx r)
  case Nil
  then show ?case by simp
next
  case (Cons item items)
  obtain d f w where item: "item = (d, f, w)" by (cases item)
  from Cons.prems have w: "0 \<le> w" and rest: "\<forall>(d, f, w) \<in> set items. 0 \<le> w"
    by (simp_all add: item)
  have later: "0 \<le> sum_list (map (\<lambda>(d, f, w). w) items)"
    using rest by (induction items) auto
  from Cons.prems have "enough n p idx r (w + sum_list (map (\<lambda>(d, f, w). w) items))"
    by (simp add: item)
  from water_loop_enough [OF this w later] obtain c idx1 r1 where
    loop: "water_loop n p d f idx r w = (c, Some (idx1, r1))"
    and e: "enough n p idx1 r1 (sum_list (map (\<lambda>(d, f, w). w) items))" by blast
  from Cons.IH [OF e rest] obtain cs st where
    "water_pass n p b a items idx1 r1 = (cs, Some st)" by blast
  with loop show ?case by (simp add: item)
qed

lemma enough_at_start:
  assumes "supply_ok well_data" and "demand \<le> total_water well_data"
  shows "enough (num_water_tubes well_data) (water_per_tube well_data) 0
           (water_per_tube well_data) demand"
proof -
  let ?n = "num_water_tubes well_data" and ?p = "water_per_tube well_data"
  from assms have n: "1 \<le> ?n" "?n \<le> 24"
    and prod: "?p * real_of_int ?n = total_water well_data + 50"
    by (simp_all add: supply_ok_def)
  have "?p + real_of_int (?n - 1 - 0) * (?p - 1) = ?p * real_of_int ?n - (real_of_int ?n - 1)"
    by (simp add: algebra_simps)
  also have "\<dots> = total_water well_data + 50 - (real_of_int ?n - 1)"
    by (simp only: prod)
  finally have "?p - demand + real_of_int (?n - 1 - 0) * (?p - 1)
                  = total_water well_data - demand + (51 - real_of_int ?n)"
    by simp
  moreover have "real_of_int ?n \<le> 24" using n by simp
  ultimately have "1 \<le> ?p - demand + real_of_int (?n - 1 - 0) * (?p - 1)"
    using assms(2) by simp
  then show ?thesis using n by (simp add: enough_def)
qed

lemma items_water:
  "sum_list (map (\<lambda>(d, f, w). w) (reservoir_water_items well_data))
     = sum_list (map water_volume (wells_large_dilution well_data))"
  "sum_list (map (\<lambda>(d, f, w). w) (plate_water_items well_data))
     = sum_list (map water_volume (wells_water_first well_data))"
  "sum_list (map (\<lambda>(d, f, w). w) (water_after_items well_data))
     = sum_list (map water_volume (wells_water_after well_data))"
proof -
  have "map (\<lambda>(d, f, w). w) (reservoir_water_items well_data)
          = map water_volume (map snd (enumerate 0 (wells_large_dilution well_data)))"
    by (simp add: reservoir_water_items_def comp_def split_beta del: map_snd_enumerate)
  then show "sum_list (map (\<lambda>(d, f, w). w) (reservoir_water_items well_data))
     = sum_list (map water_volume (wells_large_dilution well_data))"
    by (simp only: map_snd_enumerate)
qed (simp_all add: plate_water_items_def water_after_items_def comp_def split_beta)

lemma items_nonneg:
  assumes "supply_ok well_data"
  shows "\<forall>(d, f, w) \<in> set (reservoir_water_items well_data). 0 \<le> w"
    and "\<forall>(d, f, w) \<in> set (plate_water_items well_data). 0 \<le> w"
    and "\<forall>(d, f, w) \<in> set (water_after_items well_data). 0 \<le> w"
  using assms
  by (auto simp: supply_ok_def reservoir_water_items_def plate_water_items_def
      water_after_items_def wells_large_dilution_def wells_water_first_def
      wells_water_after_def wells_normal_def enumerate_eq_zip dest!: set_zip_rightD)

lemma passes_succeed:
  assumes "supply_ok well_data"
  shows "\<exists>c st. water_pass (num_water_tubes well_data) (water_per_tube well_data) b a
                   (reservoir_water_items well_data) 0 (water_per_tube well_data) = (c, Some st)"
    and "\<exists>c st. water_pass (num_water_tubes well_data) (water_per_tube well_data) b a
                   (plate_water_items well_data) 0 (water_per_tube well_data) = (c, Some st)"
    and "\<exists>c st. water_pass (num_water_tubes well_data) (water_per_tube well_data) b a
                   (water_after_items well_data) 0 (water_per_tube well_data) = (c, Some st)"
proof -
  from assms have d:
    "sum_list (map water_volume (wells_large_dilution well_data)) \<le> total_water well_data"
    "sum_list (map water_volume (wells_water_first well_data)) \<le> total_water well_data"
    "sum_list (map water_volume (wells_water_after well_data)) \<le> total_water well_data"
    by (simp_all add: supply_ok_def)
  show "\<exists>c st. water_pass (num_water_tubes well_data) (water_per_tube well_data) b a
                   (reservoir_water_items well_data) 0 (water_per_tube well_data) = (c, Some st)"
    by (rule water_pass_enough)
       (simp_all add: items_water enough_at_start [OF assms d(1)] items_nonneg [OF assms])
  show "\<exists>c st. water_pass (num_water_tubes well_data) (water_per_tube well_data) b a
                   (plate_water_items well_data) 0 (water_per_tube well_data) = (c, Some st)"
    by (rule water_pass_enough)
       (simp_all add: items_water enough_at_start [OF assms d(2)] items_nonneg [OF assms])
  show "\<exists>c st. water_pass (num_water_tubes well_data) (water_per_tube well_data) b a
                   (water_after_items well_data) 0 (water_per_tube well_data) = (c, Some st)"
    by (rule water_pass_enough)
       (simp_all add: items_water enough_at_start [OF assms d(3)] items_nonneg [OF assms])
qed

lemma steps_succeed:
  assumes "supply_ok well_data"
  shows "snd (step_reservoir_water well_data)"
    and "snd (step_plate_water well_data)"
    and "snd (step_water_after well_data)"
  using passes_succeed [OF assms, of "[]" "[]"]
        passes_succeed(3) [OF assms, of "[P20_pick_up_tip]" "[P20_drop_tip]"]
  by (auto simp: step_reservoir_water_def step_plate_water_def step_water_after_def)

lemma pipetting_completes:
  assumes "supply_ok well_data"
  shows "pipetting well_data =
           (fst (step_reservoir_water well_data) @ fst (step_plate_water well_data)
            @ step_large_dilutions well_data @ step_samples_water_first well_data
            @ step_samples_water_after well_data @ fst (step_water_after well_data), None)"
  using steps_succeed [OF assms]
  by (simp add: pipetting_def split_beta split: prod.splits bool.splits)

text \<open>
  Claim C4. For every upload that passes parsing, validation and the tube count, none of
  the three water passes raises \<open>Ran out of water tubes\<close>, and the run ends without
  an exception. The passes each start at the first tube with \<open>water_per_tube\<close> in it;
  the tubes together hold the total water plus 50, there are at most 24 of them, and
  the demand of each pass is at most the total water.
\<close>

theorem water_tubes_never_run_out:
  assumes "prepare float_of num_source_plates num_destination_plates csv_rows = Inr well_data"
  shows "snd (run float_of num_source_plates num_destination_plates csv_rows) = None
       \<and> snd (step_reservoir_water well_data)
       \<and> snd (step_plate_water well_data)
       \<and> snd (step_water_after well_data)
       \<and> water_per_tube well_data * real_of_int (num_water_tubes well_data)
           = total_water well_data + 50
       \<and> 1 \<le> num_water_tubes well_data \<and> num_water_tubes well_data \<le> 24
       \<and> sum_list (map water_volume (wells_large_dilution well_data)) \<le> total_water well_data
       \<and> sum_list (map water_volume (wells_water_first well_data)) \<le> total_water well_data
       \<and> sum_list (map water_volume (wells_water_after well_data)) \<le> total_water well_data"
proof -
  have ok: "supply_ok well_data" using assms by (rule prepare_supply_ok)
  have "snd (run float_of num_source_plates num_destination_plates csv_rows) = None"
    using assms by (simp add: run_def pipetting_completes [OF ok])
  then show ?thesis
    using steps_succeed [OF ok] ok by (simp add: supply_ok_def)
qed

text \<open>
  The example upload: 212 microlitres of water in all, one tube of 262 microlitres, and
  the run ends without an exception.
\<close>

theorem water_tubes_never_run_out_witness:
  "prepare example_float 3 2 example_csv = Inr example_rows
   \<and> total_water example_rows = 212
   \<and> num_water_tubes example_rows = 1
   \<and> water_per_tube example_rows = 262
   \<and> snd (run example_float 3 2 example_csv) = None
   \<and> snd (step_reservoir_water example_rows)
   \<and> snd (step_plate_water example_rows)
   \<and> snd (step_water_after example_rows)"
proof -
  have p: "prepare example_float 3 2 example_csv = Inr example_rows"
    by code_simp
  have n: "total_water example_rows = 212" "num_water_tubes example_rows = 1"
    "water_per_tube example_rows = 262"
    by code_simp+
  from water_tubes_never_run_out [OF p] show ?thesis
    using p n by simp
qed

subsection \<open>The shape of the water passes\<close>



subsection \<open>Tips\<close>

lemma pick_ups_Nil: "pick_ups [] = 0"
  by (simp add: pick_ups_def)


lemma pick_ups_append: "pick_ups (xs @ ys) = pick_ups xs + pick_ups ys"
  by (simp add: pick_ups_def)

lemma pick_ups_concat: "pick_ups (concat xss) = sum_list (map pick_ups xss)"
  by (induction xss) (simp_all add: pick_ups_Nil pick_ups_append)












subsection \<open>The run with the well look-ups and the tips\<close>













subsection \<open>Errors raised before the labware is loaded\<close>

lemma then_do_Inl: "then_do r f = Inl e \<longleftrightarrow> r = Inl e \<or> (\<exists>x. r = Inr x \<and> f x = Inl e)"
  by (cases r) (simp_all add: then_do_def)

lemma int_of_float_failures:
  "int_of_float x = Inl e \<Longrightarrow> e = Nan_to_integer \<or> e = Overflow_error"
  by (cases x) auto

lemma int_cell_failures:
  "int_cell float_of row k = Inl e \<Longrightarrow> e = Csv_parsing_error \<or> e = Overflow_error"
  unfolding int_cell_def float_cell_def then_do_def
  by (auto split: if_splits option.splits sum.splits failure.splits
           dest: int_of_float_failures)

lemma parse_row_float_failures:
  "parse_row_float float_of row = Inl e \<Longrightarrow> e = Csv_parsing_error \<or> e = Overflow_error"
  unfolding parse_row_float_def then_do_Inl
  by (auto dest: int_cell_failures simp: text_cell_def float_cell_def
           split: if_splits option.splits)

lemma parse_rows_float_failures:
  "parse_rows_float float_of rows = Inl e \<Longrightarrow> e = Csv_parsing_error \<or> e = Overflow_error"
  by (induction rows arbitrary: e)
     (auto simp: then_do_Inl dest: parse_row_float_failures)

lemma row_errors_float_Nil:
  "row_errors_float nsp ndp k row = [] \<longleftrightarrow>
     \<not> (raw_source_plate row < 1 \<or> raw_source_plate row > nsp
        \<or> raw_destination_plate row < 1 \<or> raw_destination_plate row > ndp
        \<or> fle (raw_sample_volume row) (Finite 0)
        \<or> fless (raw_water_volume row) (Finite 0)
        \<or> fle (raw_initial_sample_volume row) (Finite 0))"
  by (auto simp: row_errors_float_def)

lemma validation_errors_float_Nil:
  "validation_errors_float nsp ndp rows = [] \<longleftrightarrow>
     (\<forall>row \<in> set rows. row_errors_float nsp ndp 0 row = [])"
proof -
  have "concat (map (\<lambda>(idx, row). row_errors_float nsp ndp (idx + 2) row) (enumerate k rows)) = []
          \<longleftrightarrow> (\<forall>row \<in> set rows. row_errors_float nsp ndp 0 row = [])" for k
    by (induction rows arbitrary: k) (auto simp: row_errors_float_Nil)
  then show ?thesis unfolding validation_errors_float_def .
qed

lemma math_ceil_ValueError:
  "(\<exists>e. math_ceil x = Inl e \<and> is_ValueError e) \<longleftrightarrow> x = Nan"
  by (cases x) auto

text \<open>
  Claim C3 fails on the code: an upload whose only data row has \<open>nan\<close> for its water
  volume. The row parses; its plates are in range, its sample volume and initial sample
  volume are positive, and its water volume is not below 0, because no comparison with
  \<open>nan\<close> holds; so validation passes. The total water is \<open>nan\<close>, and \<open>math.ceil\<close>
  raises \<open>ValueError\<close> in the tube calculation, before the labware is loaded. No finite
  numbers are added on the way, so that no rounding is involved.
\<close>

theorem nan_water_volume_raises_value_error:
  "prepare_float exact_ops nan_float 3 2 nan_csv = Inl Nan_to_integer
   \<and> is_ValueError Nan_to_integer
   \<and> parse_rows_float nan_float (drop 1 nan_csv) = Inr [nan_row]
   \<and> validation_errors_float 3 2 [nan_row] = []
   \<and> raw_source_plate nan_row = 1 \<and> raw_destination_plate nan_row = 1
   \<and> raw_sample_volume nan_row = Finite 10 \<and> \<not> fle (Finite 10) (Finite 0)
   \<and> raw_water_volume nan_row = Nan \<and> \<not> fless Nan (Finite 0)
   \<and> raw_initial_sample_volume nan_row = Finite 50 \<and> \<not> fle (Finite 50) (Finite 0)
   \<and> wells_normal_float exact_ops [nan_row] = [nan_row]
   \<and> wells_large_dilution_float exact_ops [nan_row] = []
   \<and> f_sum exact_ops [Nan] = Nan
   \<and> total_water_with_buffer_float exact_ops [nan_row] = Nan
   \<and> num_water_tubes_float exact_ops [nan_row] = Inl Nan_to_integer"
  by code_simp

text \<open>
  Claim C3, for every upload with a header row, however the sums of floats round.

  For an upload in which no infinite plate number is read and whose total water with its
  buffer, divided by the tube capacity, is a finite float when validation passes: the
  part of \<open>run\<close> before the labware is loaded, where no command has been issued yet,
  raises \<open>ValueError\<close> exactly when reading the data rows ends with the parsing error (a
  row is too short, a numeric cell is not a float, or a plate number is \<open>nan\<close>), or the
  data rows are read and one of them has a source plate outside \<open>1..num_source_plates\<close>,
  a destination plate outside \<open>1..num_destination_plates\<close>, a sample volume at most 0,
  a water volume below 0 or an initial sample volume at most 0, or the water tubes counted
  from that quotient, together with the large-dilution tubes, are more than 24.

  For the other uploads the same holds with one more case of \<open>ValueError\<close>, the quotient
  being \<open>nan\<close>; and \<open>OverflowError\<close> is raised exactly on an infinite plate number
  and, after validation, on an infinite quotient.
\<close>

theorem value_error_before_labware:
  "(csv_rows \<noteq> []
    \<and> parse_rows_float float_of (drop 1 csv_rows) \<noteq> Inl Overflow_error
    \<and> (\<forall>well_data. parse_rows_float float_of (drop 1 csv_rows) = Inr well_data
          \<and> validation_errors_float num_source_plates num_destination_plates well_data = []
          \<longrightarrow> (\<exists>q. f_div ops (total_water_with_buffer_float ops well_data) WATER_TUBE_CAPACITY
                      = Finite q))
    \<longrightarrow>
      ((\<exists>e. prepare_float ops float_of num_source_plates num_destination_plates csv_rows = Inl e
            \<and> is_ValueError e)
       \<longleftrightarrow>
       (parse_rows_float float_of (drop 1 csv_rows) = Inl Csv_parsing_error
        \<or> (\<exists>well_data. parse_rows_float float_of (drop 1 csv_rows) = Inr well_data
              \<and> ((\<exists>row \<in> set well_data.
                      raw_source_plate row < 1 \<or> raw_source_plate row > num_source_plates
                    \<or> raw_destination_plate row < 1
                    \<or> raw_destination_plate row > num_destination_plates
                    \<or> fle (raw_sample_volume row) (Finite 0)
                    \<or> fless (raw_water_volume row) (Finite 0)
                    \<or> fle (raw_initial_sample_volume row) (Finite 0))
                  \<or> (\<exists>n. num_water_tubes_float ops well_data = Inr n
                         \<and> n + int (length (wells_large_dilution_float ops well_data)) > 24))))))
   \<and> (csv_rows \<noteq> [] \<longrightarrow>
      ((\<exists>e. prepare_float ops float_of num_source_plates num_destination_plates csv_rows = Inl e
            \<and> is_ValueError e)
       \<longleftrightarrow>
       (parse_rows_float float_of (drop 1 csv_rows) = Inl Csv_parsing_error
        \<or> (\<exists>well_data. parse_rows_float float_of (drop 1 csv_rows) = Inr well_data
              \<and> ((\<exists>row \<in> set well_data.
                      raw_source_plate row < 1 \<or> raw_source_plate row > num_source_plates
                    \<or> raw_destination_plate row < 1
                    \<or> raw_destination_plate row > num_destination_plates
                    \<or> fle (raw_sample_volume row) (Finite 0)
                    \<or> fless (raw_water_volume row) (Finite 0)
                    \<or> fle (raw_initial_sample_volume row) (Finite 0))
                  \<or> f_div ops (total_water_with_buffer_float ops well_data) WATER_TUBE_CAPACITY
                      = Nan
                  \<or> (\<exists>n. num_water_tubes_float ops well_data = Inr n
                         \<and> n + int (length (wells_large_dilution_float ops well_data)) > 24))))))
   \<and> (prepare_float ops float_of num_source_plates num_destination_plates csv_rows
         = Inl Overflow_error
       \<longleftrightarrow>
       csv_rows \<noteq> []
       \<and> (parse_rows_float float_of (drop 1 csv_rows) = Inl Overflow_error
          \<or> (\<exists>well_data. parse_rows_float float_of (drop 1 csv_rows) = Inr well_data
                \<and> validation_errors_float num_source_plates num_destination_plates well_data = []
                \<and> f_div ops (total_water_with_buffer_float ops well_data) WATER_TUBE_CAPACITY
                     \<in> {Pos_inf, Neg_inf})))"
proof -
  let ?prep = "prepare_float ops float_of num_source_plates num_destination_plates csv_rows"
  let ?bad = "\<lambda>row. raw_source_plate row < 1 \<or> raw_source_plate row > num_source_plates
                    \<or> raw_destination_plate row < 1
                    \<or> raw_destination_plate row > num_destination_plates
                    \<or> fle (raw_sample_volume row) (Finite 0)
                    \<or> fless (raw_water_volume row) (Finite 0)
                    \<or> fle (raw_initial_sample_volume row) (Finite 0)"
  let ?q = "\<lambda>wd. f_div ops (total_water_with_buffer_float ops wd) WATER_TUBE_CAPACITY"
  have valid: "validation_errors_float num_source_plates num_destination_plates wd = []
                 \<longleftrightarrow> \<not> (\<exists>row \<in> set wd. ?bad row)" for wd
    by (simp add: validation_errors_float_Nil row_errors_float_Nil)
  have tubes: "num_water_tubes_float ops wd = math_ceil (?q wd)" for wd
    by (simp add: num_water_tubes_float_def)
  consider (empty) "csv_rows = []"
    | (unread) e where "csv_rows \<noteq> []" "parse_rows_float float_of (drop 1 csv_rows) = Inl e"
    | (invalid) wd where "csv_rows \<noteq> []" "parse_rows_float float_of (drop 1 csv_rows) = Inr wd"
        "\<exists>row \<in> set wd. ?bad row"
    | (counted) wd where "csv_rows \<noteq> []" "parse_rows_float float_of (drop 1 csv_rows) = Inr wd"
        "\<not> (\<exists>row \<in> set wd. ?bad row)"
    by (cases "parse_rows_float float_of (drop 1 csv_rows)") blast+
  then show ?thesis
  proof cases
    case empty
    then show ?thesis by (simp add: prepare_float_def)
  next
    case unread
    then have p: "?prep = Inl e" by (simp add: prepare_float_def then_do_def)
    from unread(2) have "e = Csv_parsing_error \<or> e = Overflow_error"
      by (rule parse_rows_float_failures)
    with p unread show ?thesis by auto
  next
    case invalid
    then have v: "validation_errors_float num_source_plates num_destination_plates wd \<noteq> []"
      by (simp add: valid)
    with invalid have p: "?prep = Inl (Csv_validation_failed
        (length (validation_errors_float num_source_plates num_destination_plates wd)))"
      by (simp add: prepare_float_def then_do_def Let_def)
    from p invalid v show ?thesis by auto
  next
    case counted
    then have v: "validation_errors_float num_source_plates num_destination_plates wd = []"
      by (simp add: valid)
    show ?thesis
    proof (cases "?q wd")
      case (Finite x)
      let ?n = "\<lceil>x\<rceil> + int (length (wells_large_dilution_float ops wd))"
      have c: "num_water_tubes_float ops wd = Inr \<lceil>x\<rceil>" by (simp add: tubes Finite)
      have p: "?prep = (if ?n > 24 then Inl (Tube_rack_exceeded ?n) else Inr wd)"
        using counted(1,2) v c by (simp add: prepare_float_def then_do_def Let_def)
      from p counted v c Finite show ?thesis by auto
    next
      case Pos_inf
      have c: "num_water_tubes_float ops wd = Inl Overflow_error" by (simp add: tubes Pos_inf)
      have p: "?prep = Inl Overflow_error"
        using counted(1,2) v c by (simp add: prepare_float_def then_do_def Let_def)
      from p counted v c Pos_inf show ?thesis by auto
    next
      case Neg_inf
      have c: "num_water_tubes_float ops wd = Inl Overflow_error" by (simp add: tubes Neg_inf)
      have p: "?prep = Inl Overflow_error"
        using counted(1,2) v c by (simp add: prepare_float_def then_do_def Let_def)
      from p counted v c Neg_inf show ?thesis by auto
    next
      case Nan
      have c: "num_water_tubes_float ops wd = Inl Nan_to_integer" by (simp add: tubes Nan)
      have p: "?prep = Inl Nan_to_integer"
        using counted(1,2) v c by (simp add: prepare_float_def then_do_def Let_def)
      from p counted v c Nan show ?thesis by auto
    qed
  qed
qed

text \<open>
  Two uploads with one data row, three source plates loaded. A row that names source plate
  10 is read, validation finds the plate out of range, and the run stops with
  \<open>ValueError\<close>. A row with plate 1, 10 microlitres of sample and 10 of water passes:
  the quotient is 60 / 1500, one tube, and nothing is raised.
\<close>

theorem value_error_before_labware_witness:
  "parse_rows_float nan_float
        (drop 1 [[''Source Plate''], [''10'', ''A1'', ''1'', ''A1'', ''10'', ''10'', ''50'']])
       = Inr [\<lparr> raw_source_plate = 10, raw_source_well = ''A1'',
                 raw_destination_plate = 1, raw_destination_well = ''A1'',
                 raw_sample_volume = Finite 10, raw_water_volume = Finite 10,
                 raw_initial_sample_volume = Finite 50 \<rparr>]
   \<and> (\<exists>e. prepare_float exact_ops nan_float 3 2
              [[''Source Plate''], [''10'', ''A1'', ''1'', ''A1'', ''10'', ''10'', ''50'']] = Inl e
          \<and> is_ValueError e)
   \<and> parse_rows_float nan_float
        (drop 1 [[''Source Plate''], [''1'', ''A1'', ''1'', ''A1'', ''10'', ''10'', ''50'']])
       = Inr [\<lparr> raw_source_plate = 1, raw_source_well = ''A1'',
                 raw_destination_plate = 1, raw_destination_well = ''A1'',
                 raw_sample_volume = Finite 10, raw_water_volume = Finite 10,
                 raw_initial_sample_volume = Finite 50 \<rparr>]
   \<and> f_div exact_ops
         (total_water_with_buffer_float exact_ops
            [\<lparr> raw_source_plate = 1, raw_source_well = ''A1'',
                raw_destination_plate = 1, raw_destination_well = ''A1'',
                raw_sample_volume = Finite 10, raw_water_volume = Finite 10,
                raw_initial_sample_volume = Finite 50 \<rparr>]) WATER_TUBE_CAPACITY
       = Finite (60 / 1500)
   \<and> \<not> (\<exists>e. prepare_float exact_ops nan_float 3 2
              [[''Source Plate''], [''1'', ''A1'', ''1'', ''A1'', ''10'', ''10'', ''50'']] = Inl e
          \<and> is_ValueError e)"
proof -
  let ?bad_csv = "[[''Source Plate''], [''10'', ''A1'', ''1'', ''A1'', ''10'', ''10'', ''50'']]"
  let ?bad_row = "\<lparr> raw_source_plate = 10, raw_source_well = ''A1'',
                 raw_destination_plate = 1, raw_destination_well = ''A1'',
                 raw_sample_volume = Finite 10, raw_water_volume = Finite 10,
                 raw_initial_sample_volume = Finite 50 \<rparr>"
  let ?csv = "[[''Source Plate''], [''1'', ''A1'', ''1'', ''A1'', ''10'', ''10'', ''50'']]"
  let ?row = "\<lparr> raw_source_plate = 1, raw_source_well = ''A1'',
                 raw_destination_plate = 1, raw_destination_well = ''A1'',
                 raw_sample_volume = Finite 10, raw_water_volume = Finite 10,
                 raw_initial_sample_volume = Finite 50 \<rparr>"
  have p1: "parse_rows_float nan_float (drop 1 ?bad_csv) = Inr [?bad_row]"
    by code_simp
  have v1: "validation_errors_float 3 2 [?bad_row] \<noteq> []"
    by code_simp
  have h1: "?bad_csv \<noteq> []
    \<and> parse_rows_float nan_float (drop 1 ?bad_csv) \<noteq> Inl Overflow_error
    \<and> (\<forall>well_data. parse_rows_float nan_float (drop 1 ?bad_csv) = Inr well_data
          \<and> validation_errors_float 3 2 well_data = []
          \<longrightarrow> (\<exists>q. f_div exact_ops (total_water_with_buffer_float exact_ops well_data)
                       WATER_TUBE_CAPACITY = Finite q))"
    using p1 v1 by auto
  have "parse_rows_float nan_float (drop 1 ?bad_csv) = Inl Csv_parsing_error
        \<or> (\<exists>well_data. parse_rows_float nan_float (drop 1 ?bad_csv) = Inr well_data
              \<and> ((\<exists>row \<in> set well_data.
                      raw_source_plate row < 1 \<or> raw_source_plate row > 3
                    \<or> raw_destination_plate row < 1
                    \<or> raw_destination_plate row > 2
                    \<or> fle (raw_sample_volume row) (Finite 0)
                    \<or> fless (raw_water_volume row) (Finite 0)
                    \<or> fle (raw_initial_sample_volume row) (Finite 0))
                  \<or> (\<exists>n. num_water_tubes_float exact_ops well_data = Inr n
                         \<and> n + int (length (wells_large_dilution_float exact_ops well_data)) > 24)))"
    using p1 by (intro disjI2 exI [of _ "[?bad_row]"] conjI disjI1) simp_all
  with value_error_before_labware [of ?bad_csv nan_float 3 2 exact_ops, THEN conjunct1,
      rule_format, OF h1]
  have one: "\<exists>e. prepare_float exact_ops nan_float 3 2 ?bad_csv = Inl e \<and> is_ValueError e"
    by blast
  have p2: "parse_rows_float nan_float (drop 1 ?csv) = Inr [?row]"
    by code_simp
  have q2: "f_div exact_ops (total_water_with_buffer_float exact_ops [?row]) WATER_TUBE_CAPACITY
              = Finite (60 / 1500)"
    by code_simp
  have n2: "num_water_tubes_float exact_ops [?row] = Inr 1"
    "wells_large_dilution_float exact_ops [?row] = []"
    by code_simp+
  have h2: "?csv \<noteq> []
    \<and> parse_rows_float nan_float (drop 1 ?csv) \<noteq> Inl Overflow_error
    \<and> (\<forall>well_data. parse_rows_float nan_float (drop 1 ?csv) = Inr well_data
          \<and> validation_errors_float 3 2 well_data = []
          \<longrightarrow> (\<exists>q. f_div exact_ops (total_water_with_buffer_float exact_ops well_data)
                       WATER_TUBE_CAPACITY = Finite q))"
  proof (intro conjI allI impI)
    show "?csv \<noteq> []" by simp
    show "parse_rows_float nan_float (drop 1 ?csv) \<noteq> Inl Overflow_error"
      unfolding p2 by simp
    fix well_data
    assume "parse_rows_float nan_float (drop 1 ?csv) = Inr well_data
              \<and> validation_errors_float 3 2 well_data = []"
    then have "well_data = [?row]" unfolding p2 by simp
    then show "\<exists>q. f_div exact_ops (total_water_with_buffer_float exact_ops well_data)
                       WATER_TUBE_CAPACITY = Finite q"
      using q2 by blast
  qed
  have "\<not> (parse_rows_float nan_float (drop 1 ?csv) = Inl Csv_parsing_error
        \<or> (\<exists>well_data. parse_rows_float nan_float (drop 1 ?csv) = Inr well_data
              \<and> ((\<exists>row \<in> set well_data.
                      raw_source_plate row < 1 \<or> raw_source_plate row > 3
                    \<or> raw_destination_plate row < 1
                    \<or> raw_destination_plate row > 2
                    \<or> fle (raw_sample_volume row) (Finite 0)
                    \<or> fless (raw_water_volume row) (Finite 0)
                    \<or> fle (raw_initial_sample_volume row) (Finite 0))
                  \<or> (\<exists>n. num_water_tubes_float exact_ops well_data = Inr n
                         \<and> n + int (length (wells_large_dilution_float exact_ops well_data)) > 24))))"
    using p2 n2 by simp
  with value_error_before_labware [of ?csv nan_float 3 2 exact_ops, THEN conjunct1,
      rule_format, OF h2]
  have two: "\<not> (\<exists>e. prepare_float exact_ops nan_float 3 2 ?csv = Inl e \<and> is_ValueError e)"
    by blast
  from p1 one p2 q2 two show ?thesis by blast
qed

end
